theory Spec2Isabelle
  imports Main
begin

section \<open>JavaScript strings and values\<close>

text \<open>
  A JavaScript string is a sequence of UTF-16 code units; a code unit is modelled as a
  natural number. \<open>str\<close> embeds an ASCII literal of the source.
\<close>

type_synonym jstring = "nat list"

definition str :: "string \<Rightarrow> jstring" where
  "str s = map of_char s"

text \<open>
  The values that can reach the variables of the line handler: configuration entries read
  with \<open>nconf.get\<close>, the fields of the object returned by the SAME decoder, and the
  handler's own \<open>false\<close> and string values. The handler never computes with a number:
  it only tests one for truthiness, converts it to a string or reads its (absent)
  \<open>length\<close>. A number is therefore given by these two observations, \<open>JSNum b s\<close> being a
  number that is truthy exactly when \<open>b\<close> holds (it is neither zero nor NaN) and that
  \<open>String\<close> prints as \<open>s\<close>.
\<close>

datatype jsval = JSUndefined | JSNull | JSBool bool | JSNum bool jstring | JSStr jstring

fun truthy :: "jsval \<Rightarrow> bool" where
  "truthy JSUndefined = False"
| "truthy JSNull = False"
| "truthy (JSBool b) = b"
| "truthy (JSNum b s) = b"
| "truthy (JSStr s) = (s \<noteq> [])"

text \<open>The operator \<open>a || b\<close>: the left operand when it is truthy, the right one otherwise.\<close>

definition js_or :: "jsval \<Rightarrow> jsval \<Rightarrow> jsval" where
  "js_or a b = (if truthy a then a else b)"

text \<open>String conversion, as a template literal performs it.\<close>

fun to_string :: "jsval \<Rightarrow> jstring" where
  "to_string JSUndefined = str ''undefined''"
| "to_string JSNull = str ''null''"
| "to_string (JSBool b) = (if b then str ''true'' else str ''false'')"
| "to_string (JSNum b s) = s"
| "to_string (JSStr s) = s"

subsection \<open>String methods\<close>

text \<open>
  \<open>String.prototype.trim\<close> removes white space and line terminators from both ends:
  TAB, LF, VT, FF, CR, SP, NBSP, U+1680, U+2000 to U+200A, U+2028, U+2029, U+202F,
  U+205F, U+3000 and U+FEFF.
\<close>

definition white_space :: "nat \<Rightarrow> bool" where
  "white_space c \<longleftrightarrow>
     (9 \<le> c \<and> c \<le> 13) \<or> c = 32 \<or> c = 160 \<or> c = 5760 \<or> (8192 \<le> c \<and> c \<le> 8202) \<or>
     c = 8232 \<or> c = 8233 \<or> c = 8239 \<or> c = 8287 \<or> c = 12288 \<or> c = 65279"

definition trim :: "jstring \<Rightarrow> jstring" where
  "trim s = rev (dropWhile white_space (rev (dropWhile white_space s)))"

text \<open>\<open>s.includes(w)\<close>: \<open>w\<close> occurs in \<open>s\<close> as a substring.\<close>

fun includes_str :: "jstring \<Rightarrow> jstring \<Rightarrow> bool" where
  "includes_str [] w = (w = [])"
| "includes_str (x # xs) w = (take (length w) (x # xs) = w \<or> includes_str xs w)"

text \<open>
  \<open>s.replace(w, '')\<close> with a string pattern: the first occurrence of \<open>w\<close> is removed.
\<close>

fun replace_str :: "jstring \<Rightarrow> jstring \<Rightarrow> jstring" where
  "replace_str [] w = []"
| "replace_str (x # xs) w =
     (if take (length w) (x # xs) = w then drop (length w) (x # xs)
      else x # replace_str xs w)"

text \<open>
  \<open>s.padStart(n, fill)\<close>: a string of length at least \<open>n\<close> is returned as it is; a shorter
  one gets the filler, repeated and cut to the missing length, in front.
\<close>

definition padStart :: "jstring \<Rightarrow> nat \<Rightarrow> jstring \<Rightarrow> jstring" where
  "padStart s n fill =
     (if n \<le> length s \<or> fill = [] then s
      else take (n - length s) (concat (replicate (n - length s) fill)) @ s)"

section \<open>Regular expressions\<close>

text \<open>
  The fragment of ECMAScript regular expressions that the source uses, with the
  backtracking semantics of the language: alternatives are tried left to right, a greedy
  quantifier tries the longest repetition first, a lazy one the shortest. Quantifiers are
  only ever applied to single-character classes in the source.
\<close>

definition digit :: "nat \<Rightarrow> bool" where          \<comment> \<open>\<open>\d\<close> and \<open>[0-9]\<close>\<close>
  "digit c \<longleftrightarrow> 48 \<le> c \<and> c \<le> 57"

definition letter :: "nat \<Rightarrow> bool" where         \<comment> \<open>\<open>[A-Za-z]\<close>\<close>
  "letter c \<longleftrightarrow> (65 \<le> c \<and> c \<le> 90) \<or> (97 \<le> c \<and> c \<le> 122)"

definition word_char :: "nat \<Rightarrow> bool" where      \<comment> \<open>\<open>\w\<close>\<close>
  "word_char c \<longleftrightarrow> letter c \<or> digit c \<or> c = 95"

definition any_char :: "nat \<Rightarrow> bool" where       \<comment> \<open>\<open>.\<close>: anything but a line terminator\<close>
  "any_char c \<longleftrightarrow> c \<noteq> 10 \<and> c \<noteq> 13 \<and> c \<noteq> 8232 \<and> c \<noteq> 8233"

definition one_of :: "string \<Rightarrow> nat \<Rightarrow> bool" where \<comment> \<open>a class \<open>[...]\<close> listing its members\<close>
  "one_of cs c \<longleftrightarrow> c \<in> set (str cs)"

definition digit_or_space :: "nat \<Rightarrow> bool" where \<comment> \<open>\<open>[0-9 ]\<close>\<close>
  "digit_or_space c \<longleftrightarrow> digit c \<or> c = 32"

datatype regex =
    Eps
  | Lit string                 \<comment> \<open>a run of literal ASCII characters\<close>
  | Unit nat                   \<comment> \<open>one literal code unit\<close>
  | Cls "nat \<Rightarrow> bool"          \<comment> \<open>one character of a class\<close>
  | Seq regex regex
  | Alt regex regex
  | Grp nat regex              \<comment> \<open>capture group number \<open>n\<close>\<close>
  | Star "nat \<Rightarrow> bool"         \<comment> \<open>\<open>c*\<close>\<close>
  | StarLazy "nat \<Rightarrow> bool"     \<comment> \<open>\<open>c*?\<close>\<close>
  | Eol                        \<comment> \<open>\<open>$\<close>, without the multiline flag\<close>

type_synonym captures = "nat \<rightharpoonup> jstring"
type_synonym cont = "jstring \<Rightarrow> captures \<Rightarrow> (jstring \<times> captures) option"

fun star_greedy :: "(nat \<Rightarrow> bool) \<Rightarrow> cont \<Rightarrow> cont" where
  "star_greedy p k [] c = k [] c"
| "star_greedy p k (x # xs) c =
     (if p x then (case star_greedy p k xs c of Some r \<Rightarrow> Some r | None \<Rightarrow> k (x # xs) c)
      else k (x # xs) c)"

fun star_lazy :: "(nat \<Rightarrow> bool) \<Rightarrow> cont \<Rightarrow> cont" where
  "star_lazy p k [] c = k [] c"
| "star_lazy p k (x # xs) c =
     (case k (x # xs) c of Some r \<Rightarrow> Some r
      | None \<Rightarrow> if p x then star_lazy p k xs c else None)"

text \<open>
  The matcher in continuation-passing style: \<open>matcher r k s c\<close> matches \<open>r\<close> at the front of
  \<open>s\<close> and hands the rest of the input and the captures to \<open>k\<close>; when \<open>k\<close> fails, the next
  way of matching \<open>r\<close> is tried.
\<close>

primrec matcher :: "regex \<Rightarrow> cont \<Rightarrow> cont" where
  "matcher Eps = (\<lambda>k s c. k s c)"
| "matcher (Lit w) = (\<lambda>k s c.
     if take (length w) s = str w then k (drop (length w) s) c else None)"
| "matcher (Unit u) = (\<lambda>k s c.
     case s of [] \<Rightarrow> None | x # xs \<Rightarrow> if x = u then k xs c else None)"
| "matcher (Cls p) = (\<lambda>k s c.
     case s of [] \<Rightarrow> None | x # xs \<Rightarrow> if p x then k xs c else None)"
| "matcher (Seq a b) = (\<lambda>k. matcher a (matcher b k))"
| "matcher (Alt a b) = (\<lambda>k s c.
     case matcher a k s c of Some r \<Rightarrow> Some r | None \<Rightarrow> matcher b k s c)"
| "matcher (Grp n r) = (\<lambda>k s c.
     matcher r (\<lambda>s' c'. k s' (c'(n \<mapsto> take (length s - length s') s))) s c)"
| "matcher (Star p) = star_greedy p"
| "matcher (StarLazy p) = star_lazy p"
| "matcher Eol = (\<lambda>k s c. if s = [] then k s c else None)"

text \<open>Derived forms: concatenation of a list, \<open>r+\<close>, \<open>r?\<close> and \<open>r{n}\<close>.\<close>

definition seqs :: "regex list \<Rightarrow> regex" where
  "seqs rs = foldr Seq rs Eps"

definition Plus :: "(nat \<Rightarrow> bool) \<Rightarrow> regex" where
  "Plus p = Seq (Cls p) (Star p)"

definition Opt :: "regex \<Rightarrow> regex" where
  "Opt r = Alt r Eps"

primrec Times :: "nat \<Rightarrow> regex \<Rightarrow> regex" where
  "Times 0 r = Eps"
| "Times (Suc n) r = Seq r (Times n r)"

text \<open>
  The result of a successful match: the text before the match, the matched text (group 0),
  the capture groups and the text after the match.
\<close>

record rmatch =
  before :: jstring
  whole :: jstring
  groups :: captures
  after :: jstring

definition match_here :: "regex \<Rightarrow> jstring \<Rightarrow> (jstring \<times> captures) option" where
  "match_here r s = matcher r (\<lambda>s' c. Some (s', c)) s Map.empty"

text \<open>
  \<open>search r pre s\<close> tries the start positions of \<open>s\<close> from left to right, the empty suffix
  included; \<open>pre\<close> is the text already passed.
\<close>

fun search :: "regex \<Rightarrow> jstring \<Rightarrow> jstring \<Rightarrow> rmatch option" where
  "search r pre s =
     (case match_here r s of
        Some (rest, c) \<Rightarrow>
          Some \<lparr>before = pre, whole = take (length s - length rest) s, groups = c, after = rest\<rparr>
      | None \<Rightarrow> (case s of [] \<Rightarrow> None | x # xs \<Rightarrow> search r (pre @ [x]) xs))"

declare search.simps [simp del]

definition js_match :: "jstring \<Rightarrow> regex \<Rightarrow> rmatch option" where   \<comment> \<open>\<open>s.match(r)\<close>, no \<open>g\<close> flag\<close>
  "js_match s r = search r [] s"

definition test :: "regex \<Rightarrow> jstring \<Rightarrow> bool" where               \<comment> \<open>\<open>r.test(s)\<close>\<close>
  "test r s = (js_match s r \<noteq> None)"

text \<open>\<open>m && m[n]\<close>: the text of group \<open>n\<close> when the match succeeded and the group is a
  non-empty string.\<close>

definition group_of :: "rmatch option \<Rightarrow> nat \<Rightarrow> jstring option" where
  "group_of m n =
     (case m of None \<Rightarrow> None
      | Some r \<Rightarrow> (case groups r n of None \<Rightarrow> None
                   | Some g \<Rightarrow> if g \<noteq> [] then Some g else None))"

text \<open>\<open>s.replace(r, '')\<close> without the \<open>g\<close> flag removes the first match.\<close>

definition replace_first :: "jstring \<Rightarrow> regex \<Rightarrow> jstring" where
  "replace_first s r = (case js_match s r of None \<Rightarrow> s | Some m \<Rightarrow> before m @ after m)"

text \<open>
  \<open>s.replace(r, w)\<close> with the \<open>g\<close> flag replaces every match, left to right and without
  overlap; after an empty match the scan moves on by one code unit.
\<close>

function replace_all :: "jstring \<Rightarrow> regex \<Rightarrow> jstring \<Rightarrow> jstring" where
  "replace_all s r w =
     (case match_here r s of
        Some (rest, c) \<Rightarrow>
          (if length rest < length s then w @ replace_all rest r w
           else (case s of [] \<Rightarrow> w | x # xs \<Rightarrow> w @ x # replace_all xs r w))
      | None \<Rightarrow> (case s of [] \<Rightarrow> [] | x # xs \<Rightarrow> x # replace_all xs r w))"
  by pat_completeness auto
termination
  by (relation "measure (\<lambda>(s, r, w). length s)") auto

declare replace_all.simps [simp del]


section \<open>The patterns of \<open>reader.js\<close>\<close>

definition POCSAG_LINE_REGEX :: regex where        \<comment> \<open>\<open>/POCSAG(\d+): Address: /\<close>\<close>
  "POCSAG_LINE_REGEX = seqs [Lit ''POCSAG'', Grp 1 (Plus digit), Lit '': Address: '']"

definition POCSAG_ADDRESS_REGEX :: regex where     \<comment> \<open>\<open>/POCSAG(\d+): Address:(.*?)Function/\<close>\<close>
  "POCSAG_ADDRESS_REGEX =
     seqs [Lit ''POCSAG'', Grp 1 (Plus digit), Lit '': Address:'', Grp 2 (StarLazy any_char),
           Lit ''Function'']"

definition POCSAG_FUNCTION_REGEX :: regex where    \<comment> \<open>\<open>/POCSAG(\d+): Address:(.*?)Function: (\d)/\<close>\<close>
  "POCSAG_FUNCTION_REGEX =
     seqs [Lit ''POCSAG'', Grp 1 (Plus digit), Lit '': Address:'', Grp 2 (StarLazy any_char),
           Lit ''Function: '', Grp 3 (Cls digit)]"

definition FLEX_ADDRESS_REGEX :: regex where       \<comment> \<open>\<open>/FLEX[:|] ?.*?[\[|](\d*?)[\]| ]/\<close>\<close>
  "FLEX_ADDRESS_REGEX =
     seqs [Lit ''FLEX'', Cls (one_of '':|''), Opt (Lit '' ''), StarLazy any_char,
           Cls (one_of ''[|''), Grp 1 (StarLazy digit), Cls (one_of '']| '')]"

definition FLEX_MESSAGE_REGEX :: regex where       \<comment> \<open>\<open>/FLEX[:|].*[|\[][0-9 ]*[|\]] ?...[ |](.+)/\<close>\<close>
  "FLEX_MESSAGE_REGEX =
     seqs [Lit ''FLEX'', Cls (one_of '':|''), Star any_char, Cls (one_of ''|[''),
           Star digit_or_space, Cls (one_of ''|]''), Opt (Lit '' ''),
           Cls any_char, Cls any_char, Cls any_char, Cls (one_of '' |''),
           Grp 1 (Plus any_char)]"

definition ALN_GPN_NUM_REGEX :: regex where        \<comment> \<open>\<open>/([ |]ALN[ |]|[ |]GPN[ |]|[ |]NUM[ |])/\<close>\<close>
  "ALN_GPN_NUM_REGEX =
     Grp 1 (Alt (seqs [Cls (one_of '' |''), Lit ''ALN'', Cls (one_of '' |'')])
           (Alt (seqs [Cls (one_of '' |''), Lit ''GPN'', Cls (one_of '' |'')])
                (seqs [Cls (one_of '' |''), Lit ''NUM'', Cls (one_of '' |'')])))"

definition EAS_REGEX :: regex where                \<comment> \<open>\<open>/(EAS[:|]|ZCZC-)/\<close>\<close>
  "EAS_REGEX = Grp 1 (Alt (seqs [Lit ''EAS'', Cls (one_of '':|'')]) (Lit ''ZCZC-''))"

definition ALPHA_REGEX :: regex where              \<comment> \<open>\<open>/Alpha:(.*?)$/\<close>\<close>
  "ALPHA_REGEX = seqs [Lit ''Alpha:'', Grp 1 (StarLazy any_char), Eol]"

definition NUMERIC_REGEX :: regex where            \<comment> \<open>\<open>/Numeric:(.*?)$/\<close>\<close>
  "NUMERIC_REGEX = seqs [Lit ''Numeric:'', Grp 1 (StarLazy any_char), Eol]"

definition LONG_DATE_REGEX :: regex where          \<comment> \<open>\<open>/\d{2} \w+ \d{4} \d{2}:\d{2}:\d{2}/\<close>\<close>
  "LONG_DATE_REGEX =
     seqs [Times 2 (Cls digit), Lit '' '', Plus word_char, Lit '' '', Times 4 (Cls digit),
           Lit '' '', Times 2 (Cls digit), Lit '':'', Times 2 (Cls digit), Lit '':'',
           Times 2 (Cls digit)]"

definition ISO_DATE_REGEX :: regex where           \<comment> \<open>\<open>/\d+-\d+-\d+ \d{2}:\d+:\d{2}/\<close>\<close>
  "ISO_DATE_REGEX =
     seqs [Plus digit, Lit ''-'', Plus digit, Lit ''-'', Plus digit, Lit '' '',
           Times 2 (Cls digit), Lit '':'', Plus digit, Lit '':'', Times 2 (Cls digit)]"

definition FLEX_PREFIX_REGEX :: regex where        \<comment> \<open>\<open>/FLEX[:|] ?/\<close>\<close>
  "FLEX_PREFIX_REGEX = seqs [Lit ''FLEX'', Cls (one_of '':|''), Opt (Lit '' '')]"

definition FLEX_LONG_DATE_REGEX :: regex where     \<comment> \<open>\<open>/FLEX[:|] ?\d{2} \w+ \d{4} \d{2}:\d{2}:\d{2}/\<close>\<close>
  "FLEX_LONG_DATE_REGEX =
     seqs [Lit ''FLEX'', Cls (one_of '':|''), Opt (Lit '' ''),
           Times 2 (Cls digit), Lit '' '', Plus word_char, Lit '' '', Times 4 (Cls digit),
           Lit '' '', Times 2 (Cls digit), Lit '':'', Times 2 (Cls digit), Lit '':'',
           Times 2 (Cls digit)]"

definition FLEX_ISO_DATE_REGEX :: regex where      \<comment> \<open>\<open>/FLEX[:|] ?\d+-\d+-\d+ \d{2}:\d{2}:\d{2}/\<close>\<close>
  "FLEX_ISO_DATE_REGEX =
     seqs [Lit ''FLEX'', Cls (one_of '':|''), Opt (Lit '' ''),
           Plus digit, Lit ''-'', Plus digit, Lit ''-'', Plus digit, Lit '' '',
           Times 2 (Cls digit), Lit '':'', Times 2 (Cls digit), Lit '':'', Times 2 (Cls digit)]"

definition CONTROL_TOKEN_REGEX :: regex where      \<comment> \<open>\<open>/<[A-Za-z]{3}>/g\<close>\<close>
  "CONTROL_TOKEN_REGEX = seqs [Lit ''<'', Times 3 (Cls letter), Lit ''>'']"

text \<open>
  The fragmentation code \<open>/[ |][0-9]{4}\/[0-9]\/X\/.[ |]/\<close>, for \<open>X\<close> one of \<open>F\<close>, \<open>C\<close>
  and \<open>K\<close>.
\<close>

definition FRAG_CODE_REGEX :: "string \<Rightarrow> regex" where
  "FRAG_CODE_REGEX X =
     seqs [Cls (one_of '' |''), Times 4 (Cls digit), Lit ''/'', Cls digit, Lit ''/'', Lit X,
           Lit ''/'', Cls any_char, Cls (one_of '' |'')]"

text \<open>
  \<open>.replace(/<[A-Za-z]{3}>/g, '').replace(/\<A>/g, '[').replace(/\<U>/g, ']')\<close>, where \<open>\<A>\<close> is
  U+00C4 and \<open>\<U>\<close> is U+00DC.
\<close>

definition strip_tokens :: "jstring \<Rightarrow> jstring" where
  "strip_tokens m =
     replace_all (replace_all (replace_all m CONTROL_TOKEN_REGEX []) (Unit 196) (str ''[''))
       (Unit 220) (str '']'')"

text \<open>\<open>padDigits(number, digits)\<close> is \<open>String(number).padStart(digits, '0')\<close>.\<close>

definition padDigits :: "jsval \<Rightarrow> nat \<Rightarrow> jstring" where
  "padDigits number digits = padStart (to_string number) digits (str ''0'')"


section \<open>Configuration, collaborators and state\<close>

text \<open>
  The entries of the configuration file as \<open>nconf.get\<close> returns them; an entry that is
  absent reads as \<open>undefined\<close>. \<open>cfg_EAS\<close> is \<open>None\<close> when the configuration has no \<open>EAS\<close>
  object.
\<close>

record eas_opts =
  excludeEvents :: "jstring list"
  includeFIPS :: "jstring list"
  addressAddType :: jsval

record config =
  cfg_identifier :: jsval
  cfg_sendFunctionCode :: jsval
  cfg_useTimestamp :: jsval
  cfg_EAS :: "eas_opts option"

definition sendFunctionCode :: "config \<Rightarrow> jsval" where  \<comment> \<open>\<open>nconf.get('sendFunctionCode') || false\<close>\<close>
  "sendFunctionCode cfg = js_or (cfg_sendFunctionCode cfg) (JSBool False)"

definition useTimestamp :: "config \<Rightarrow> jsval" where      \<comment> \<open>\<open>nconf.get('useTimestamp') || true\<close>\<close>
  "useTimestamp cfg = js_or (cfg_useTimestamp cfg) (JSBool True)"

definition EASOpts :: "config \<Rightarrow> eas_opts option" where
  "EASOpts cfg = cfg_EAS cfg"

datatype js_error = TypeError | DecoderError

text \<open>The object that \<open>SAME.decode\<close> returns, by the three properties the handler reads.\<close>

record eas_message =
  LLLL_ORG :: jsval
  eas_type :: jsval
  MESSAGE :: jsval

text \<open>
  What one run of the handler reads from outside the source file: the clock
  (\<open>moment().unix()\<close> at the start of the handler and again in the EAS branch), the parser
  \<open>moment(s, ['DD MMMM YYYY HH:mm:ss', 'YYYY-MM-DD HH:mm:ss'])\<close>, which gives the Unix time
  when \<open>isValid()\<close> holds and \<open>None\<close> otherwise, and the SAME decoder, which returns an
  object, a falsy value (\<open>None\<close>) or throws.
\<close>

record env =
  now :: int
  now_eas :: int
  moment_unix :: "jstring \<Rightarrow> int option"
  SAME_decode :: "jstring \<Rightarrow> jstring list \<Rightarrow> jstring list \<Rightarrow> js_error + eas_message option"

text \<open>
  The fragment store \<open>frag\<close>. Its keys are FLEX addresses, which the address pattern
  restricts to digits.
\<close>

type_synonym frag = "jstring \<rightharpoonup> jstring"

text \<open>The local variables of the handler that outlive the decoding branches.\<close>

record locals =
  datetime :: int
  address :: jsval
  message :: jsval
  trimMessage :: jsval

text \<open>The payload handed to \<open>sendPage\<close>.\<close>

record form =
  form_address :: jstring
  form_message :: jsval
  form_datetime :: int
  form_source :: jsval

datatype diag =
  NoAddress | NoFunctionCode | NoAlpha | NoNumeric | NoFlexAddress | NoFlexMessage | NoEasDecode

text \<open>
  What the handler does to the outside: \<open>Failed\<close> is one of the \<open>console.error\<close> calls of the
  decoders, \<open>LogMessage\<close> the coloured log line of a message, \<open>SendPage f\<close> the call
  \<open>sendPage(f, 0)\<close>, \<open>LogLine\<close> the grey log line of a line that is not a message, and
  \<open>ErrorProcessing\<close> the two \<open>console.error\<close> calls of the \<open>catch\<close> block.
\<close>

datatype event =
    Failed diag jstring
  | LogMessage jstring jsval
  | SendPage form
  | LogLine jstring
  | ErrorProcessing jstring js_error

text \<open>How a block ends: normally, by \<open>return\<close>, or by an exception.\<close>

datatype 'a completion = Normal 'a | Return | Throw js_error

section \<open>The line handler\<close>

subsection \<open>POCSAG\<close>

text \<open>The timestamp block of an Alpha payload: the new \<open>datetime\<close> and \<open>message\<close>.\<close>

definition alpha_timestamp :: "env \<Rightarrow> int \<Rightarrow> jstring \<Rightarrow> int \<times> jstring" where
  "alpha_timestamp e dt m =
     (case (case js_match m LONG_DATE_REGEX of Some t \<Rightarrow> Some t
            | None \<Rightarrow> js_match m ISO_DATE_REGEX) of
        None \<Rightarrow> (dt, m)
      | Some timestampMatch \<Rightarrow>
          (case moment_unix e (whole timestampMatch) of
             None \<Rightarrow> (dt, m)
           | Some u \<Rightarrow> (u, trim (replace_str m (whole timestampMatch)))))"

definition pocsag_payload :: "config \<Rightarrow> env \<Rightarrow> jstring \<Rightarrow> locals \<Rightarrow> locals \<times> event list" where
  "pocsag_payload cfg e line l =
     (if includes_str line (str ''Alpha:'') then
        (case group_of (js_match line ALPHA_REGEX) 1 of
           Some g \<Rightarrow>
             (let (dt, m) = (if truthy (useTimestamp cfg)
                             then alpha_timestamp e (datetime l) (trim g)
                             else (datetime l, trim g))
              in (l\<lparr>datetime := dt, message := JSStr m,
                     trimMessage := JSStr (trim (strip_tokens m))\<rparr>, []))
         | None \<Rightarrow> (l, [Failed NoAlpha line]))
      else if includes_str line (str ''Numeric:'') then
        (case group_of (js_match line NUMERIC_REGEX) 1 of
           Some g \<Rightarrow>
             (l\<lparr>message := JSStr (trim g), trimMessage := JSStr (strip_tokens (trim g))\<rparr>, [])
         | None \<Rightarrow> (l, [Failed NoNumeric line]))
      else (l, []))"

definition pocsag_branch ::
  "config \<Rightarrow> env \<Rightarrow> jstring \<Rightarrow> locals \<Rightarrow> locals completion \<times> event list" where
  "pocsag_branch cfg e line l =
     (case group_of (js_match line POCSAG_ADDRESS_REGEX) 2 of
        None \<Rightarrow> (Return, [Failed NoAddress line])
      | Some g \<Rightarrow>
          (let (a, ev) =
                 (if truthy (sendFunctionCode cfg) then
                    (case group_of (js_match line POCSAG_FUNCTION_REGEX) 3 of
                       Some f \<Rightarrow> (trim g @ f, [])
                     | None \<Rightarrow> (trim g, [Failed NoFunctionCode line]))
                  else (trim g, []));
               (l', ev') = pocsag_payload cfg e line (l\<lparr>address := JSStr a\<rparr>)
           in (Normal l', ev @ ev')))"

subsection \<open>FLEX\<close>

definition flex_timestamp :: "env \<Rightarrow> jstring \<Rightarrow> int \<Rightarrow> int" where
  "flex_timestamp e line dt =
     (case (case js_match line FLEX_LONG_DATE_REGEX of Some t \<Rightarrow> Some t
            | None \<Rightarrow> js_match line FLEX_ISO_DATE_REGEX) of
        None \<Rightarrow> dt
      | Some timestampMatch \<Rightarrow>
          (case moment_unix e (replace_first (whole timestampMatch) FLEX_PREFIX_REGEX) of
             None \<Rightarrow> dt
           | Some u \<Rightarrow> u))"

text \<open>
  The fragmentation block, entered with the trimmed payload \<open>m\<close>. \<open>frag[address] || ''\<close>
  reads as the empty string when the store has no entry or an empty one.
\<close>

definition flex_fragment :: "frag \<Rightarrow> jstring \<Rightarrow> jstring \<Rightarrow> jstring \<Rightarrow> locals \<Rightarrow> locals \<times> frag" where
  "flex_fragment fr line a m l =
     (if test (FRAG_CODE_REGEX ''F'') line then
        (l\<lparr>message := JSBool False, trimMessage := JSStr []\<rparr>, fr(a \<mapsto> m))
      else if test (FRAG_CODE_REGEX ''C'') line then
        (l\<lparr>message := JSStr m,
           trimMessage := JSStr ((case fr a of None \<Rightarrow> []
                                  | Some p \<Rightarrow> if p \<noteq> [] then p else []) @ m)\<rparr>,
         fr(a := None))
      else if test (FRAG_CODE_REGEX ''K'') line then
        (l\<lparr>message := JSStr m, trimMessage := JSStr m\<rparr>, fr)
      else
        (l\<lparr>message := JSStr m, trimMessage := JSStr m\<rparr>, fr))"

definition flex_branch ::
  "config \<Rightarrow> env \<Rightarrow> frag \<Rightarrow> jstring \<Rightarrow> locals \<Rightarrow> locals completion \<times> frag \<times> event list" where
  "flex_branch cfg e fr line l =
     (case group_of (js_match line FLEX_ADDRESS_REGEX) 1 of
        None \<Rightarrow> (Return, fr, [Failed NoFlexAddress line])
      | Some g \<Rightarrow>
          (let l1 = l\<lparr>address := JSStr (trim g),
                       datetime := (if truthy (useTimestamp cfg)
                                    then flex_timestamp e line (datetime l) else datetime l)\<rparr>
           in if test ALN_GPN_NUM_REGEX line then
                (case group_of (js_match line FLEX_MESSAGE_REGEX) 1 of
                   Some t \<Rightarrow>
                     (let (l2, fr') = flex_fragment fr line (trim g) (trim t) l1
                      in (Normal l2, fr', []))
                 | None \<Rightarrow> (Normal l1, fr, [Failed NoFlexMessage line]))
              else (Normal l1, fr, [])))"

subsection \<open>EAS\<close>

text \<open>
  Reading \<open>EASOpts.excludeEvents\<close> throws a \<open>TypeError\<close> when the configuration has no
  \<open>EAS\<close> object; an exception of the decoder propagates.
\<close>

definition eas_branch ::
  "config \<Rightarrow> env \<Rightarrow> jstring \<Rightarrow> locals \<Rightarrow> locals completion \<times> event list" where
  "eas_branch cfg e line l =
     (case EASOpts cfg of
        None \<Rightarrow> (Throw TypeError, [])
      | Some opts \<Rightarrow>
          (case SAME_decode e line (excludeEvents opts) (includeFIPS opts) of
             Inl err \<Rightarrow> (Throw err, [])
           | Inr None \<Rightarrow> (Normal l, [Failed NoEasDecode line])
           | Inr (Some decodedMessage) \<Rightarrow>
               (Normal (l\<lparr>address :=
                             (if truthy (addressAddType opts)
                              then JSStr (to_string (LLLL_ORG decodedMessage) @ str ''-'' @
                                          to_string (eas_type decodedMessage))
                              else LLLL_ORG decodedMessage),
                          message := MESSAGE decodedMessage,
                          trimMessage := MESSAGE decodedMessage,
                          datetime := now_eas e\<rparr>), [])))"

subsection \<open>Classification, filter and the \<open>try\<close> block\<close>

text \<open>The locals at the start of the handler.\<close>

definition initial_locals :: "env \<Rightarrow> locals" where
  "initial_locals e =
     \<lparr>datetime = now e, address = JSStr [], message = JSBool False, trimMessage = JSStr []\<rparr>"

text \<open>The \<open>if\<close> chain that selects the decoder, from the initial values of the locals.\<close>

definition decode ::
  "config \<Rightarrow> env \<Rightarrow> frag \<Rightarrow> jstring \<Rightarrow> locals completion \<times> frag \<times> event list" where
  "decode cfg e fr line =
     (let l = initial_locals e
      in if test POCSAG_LINE_REGEX line then
           (let (c, ev) = pocsag_branch cfg e line l in (c, fr, ev))
         else if test FLEX_ADDRESS_REGEX line then flex_branch cfg e fr line l
         else if test EAS_REGEX line then
           (let (c, ev) = eas_branch cfg e line l in (c, fr, ev))
         else (Normal (l\<lparr>address := JSStr [], message := JSBool False,
                          trimMessage := JSStr []\<rparr>), fr, []))"

text \<open>
  \<open>address.length > 2 && message\<close>: reading \<open>length\<close> of \<open>undefined\<close> or \<open>null\<close> throws, a
  boolean or a number has no \<open>length\<close> and the comparison is false.
\<close>

definition passes_filter :: "locals \<Rightarrow> js_error + bool" where
  "passes_filter l =
     (case address l of
        JSUndefined \<Rightarrow> Inl TypeError
      | JSNull \<Rightarrow> Inl TypeError
      | JSBool b \<Rightarrow> Inr False
      | JSNum b s \<Rightarrow> Inr False
      | JSStr a \<Rightarrow> Inr (2 < length a \<and> truthy (message l)))"

definition emit :: "config \<Rightarrow> jstring \<Rightarrow> locals \<Rightarrow> unit completion \<times> event list" where
  "emit cfg line l =
     (case passes_filter l of
        Inl err \<Rightarrow> (Throw err, [])
      | Inr True \<Rightarrow>
          (let padAddress = padDigits (address l) 7
           in (Normal (),
               [LogMessage padAddress (trimMessage l),
                SendPage \<lparr>form_address = padAddress, form_message = trimMessage l,
                          form_datetime = datetime l, form_source = cfg_identifier cfg\<rparr>]))
      | Inr False \<Rightarrow> (Normal (), [LogLine line]))"

definition line_body ::
  "config \<Rightarrow> env \<Rightarrow> frag \<Rightarrow> jstring \<Rightarrow> unit completion \<times> frag \<times> event list" where
  "line_body cfg e fr line =
     (case decode cfg e fr line of
        (Normal l, fr', ev) \<Rightarrow> (let (c, ev') = emit cfg line l in (c, fr', ev @ ev'))
      | (Return, fr', ev) \<Rightarrow> (Return, fr', ev)
      | (Throw err, fr', ev) \<Rightarrow> (Throw err, fr', ev))"

text \<open>
  \<open>try { body } catch (err) { handler }\<close>: the handler runs in the state the body left and
  may itself end in any way.
\<close>

definition try_catch ::
  "'a completion \<times> 's \<times> event list \<Rightarrow> (js_error \<Rightarrow> 's \<Rightarrow> 'a completion \<times> 's \<times> event list) \<Rightarrow>
   'a completion \<times> 's \<times> event list" where
  "try_catch body handler =
     (case body of
        (Throw err, s, ev) \<Rightarrow> (let (c, s', ev') = handler err s in (c, s', ev @ ev'))
      | (c, s, ev) \<Rightarrow> (c, s, ev))"

definition on_line ::
  "config \<Rightarrow> env \<Rightarrow> frag \<Rightarrow> jstring \<Rightarrow> unit completion \<times> frag \<times> event list" where
  "on_line cfg e fr line =
     try_catch (line_body cfg e fr line)
       (\<lambda>err fr'. (Normal (), fr', [ErrorProcessing line err]))"

text \<open>
  The \<open>line\<close> events that the readline interface emits, in order, each with what the
  handler reads from outside during its run. Which lines of the standard input become
  \<open>line\<close> events is decided by the interface, see \<open>terminal_lines\<close> below. An exception
  that leaves the handler ends the process: the remaining events are not handled.
\<close>

fun rl_lines ::
  "config \<Rightarrow> frag \<Rightarrow> (env \<times> jstring) list \<Rightarrow> unit completion \<times> frag \<times> event list" where
  "rl_lines cfg fr [] = (Normal (), fr, [])"
| "rl_lines cfg fr ((e, line) # rest) =
     (case on_line cfg e fr line of
        (Throw err, fr', ev) \<Rightarrow> (Throw err, fr', ev)
      | (c, fr', ev) \<Rightarrow> (let (c', fr'', ev') = rl_lines cfg fr' rest in (c', fr'', ev @ ev')))"

text \<open>The payloads handed to \<open>sendPage\<close> among the events.\<close>

fun sent :: "event list \<Rightarrow> form list" where
  "sent [] = []"
| "sent (SendPage f # evs) = f # sent evs"
| "sent (ev # evs) = sent evs"

section \<open>The readline interface\<close>

text \<open>
  The interface is created with \<open>terminal: true\<close> on the standard input and without a
  listener for \<open>SIGINT\<close>, so the decoded input is read as key presses:
  \<^item> the code unit 3 (Ctrl-C) closes the interface: the text typed so far on the current
    line is dropped and nothing that follows in the input is read;
  \<^item> the code unit 10 (line feed, with no carriage return before it) emits the current
    line as a \<open>line\<close> event, the empty line included;
  \<^item> any other code unit from 32 on, except 127 (backspace) and the line separators
    U+2028 and U+2029, is appended to the current line;
  \<^item> at the end of the input a non-empty current line is emitted and the interface
    closes.

  In both ways of closing the \<open>close\<close> listener prints \<open>Input died!\<close>. The remaining
  control characters and escape sequences edit the line, move in its history or signal
  the process; they are outside this model, which answers \<open>None\<close> for an input that holds
  one of them.
\<close>

datatype closed_by = EndOfInput | Interrupt

definition inserted_key :: "nat \<Rightarrow> bool" where
  "inserted_key c \<longleftrightarrow> 32 \<le> c \<and> c \<noteq> 127 \<and> c \<noteq> 8232 \<and> c \<noteq> 8233"

text \<open>
  \<open>terminal_lines cur input\<close>: the lines emitted while reading \<open>input\<close> with \<open>cur\<close> as the
  current line, and how the interface closed.
\<close>

fun terminal_lines :: "jstring \<Rightarrow> jstring \<Rightarrow> (jstring list \<times> closed_by) option" where
  "terminal_lines cur [] = Some (if cur \<noteq> [] then [cur] else [], EndOfInput)"
| "terminal_lines cur (c # cs) =
     (if c = 3 then Some ([], Interrupt)
      else if c = 10 then
        (case terminal_lines [] cs of
           None \<Rightarrow> None
         | Some (ls, why) \<Rightarrow> Some (cur # ls, why))
      else if inserted_key c then terminal_lines (cur @ [c]) cs
      else None)"

text \<open>
  The program on a whole standard input: the handler runs on the emitted lines, the
  \<open>k\<close>-th of them reading \<open>clock k\<close> from outside.
\<close>

definition read_stdin ::
  "config \<Rightarrow> (nat \<Rightarrow> env) \<Rightarrow> frag \<Rightarrow> jstring \<Rightarrow>
   ((unit completion \<times> frag \<times> event list) \<times> closed_by) option" where
  "read_stdin cfg clock fr input =
     (case terminal_lines [] input of
        None \<Rightarrow> None
      | Some (ls, why) \<Rightarrow>
          Some (rl_lines cfg fr (zip (map clock [0..<length ls]) ls), why))"

text \<open>A newline after each line.\<close>

definition unlines :: "jstring list \<Rightarrow> jstring" where
  "unlines ls = concat (map (\<lambda>l. l @ [10]) ls)"

section \<open>Delivery with retries\<close>

text \<open>
  \<open>sendPage(message, retries)\<close>. \<open>rp\<close> gives the outcome of the successive requests, \<open>True\<close>
  for a fulfilled promise and \<open>False\<close> for a rejected one. The result is what the call and
  the calls it schedules do, in order; the delay of \<open>setTimeout\<close> is recorded in
  milliseconds.
\<close>

datatype send_event = Post | Delivered | FailedToDeliver | RetryIn nat | GivingUp

function sendPage :: "(nat \<Rightarrow> bool) \<Rightarrow> nat \<Rightarrow> send_event list" where
  "sendPage rp retries =
     Post #
     (if rp 0 then [Delivered]
      else FailedToDeliver #
        (if retries < 10 then
           (let retryTime = 2 ^ retries * 1000
            in RetryIn retryTime # sendPage (\<lambda>n. rp (Suc n)) (retries + 1))
         else [GivingUp]))"
  by pat_completeness auto
termination
  by (relation "measure (\<lambda>(rp, retries). 10 - retries)") auto

declare sendPage.simps [simp del]

text \<open>The delays of the retries scheduled in a run, in order.\<close>

fun retry_delays :: "send_event list \<Rightarrow> nat list" where
  "retry_delays [] = []"
| "retry_delays (RetryIn d # evs) = d # retry_delays evs"
| "retry_delays (ev # evs) = retry_delays evs"


section \<open>The protocol family of a line\<close>

text \<open>
  The family of a line as the design states it: the patterns are tested in the order
  POCSAG, FLEX, EAS, and a line that matches none of them is UNKNOWN. This definition
  follows the specification; \<open>decode\<close> above follows the source.
\<close>

datatype ProtocolFamily = POCSAG | FLEX | EAS | UNKNOWN

definition family_patterns :: "(ProtocolFamily \<times> regex) list" where
  "family_patterns =
     [(POCSAG, POCSAG_LINE_REGEX), (FLEX, FLEX_ADDRESS_REGEX), (EAS, EAS_REGEX)]"

fun first_match :: "(ProtocolFamily \<times> regex) list \<Rightarrow> jstring \<Rightarrow> ProtocolFamily" where
  "first_match [] line = UNKNOWN"
| "first_match ((fam, r) # ps) line = (if test r line then fam else first_match ps line)"

definition classify :: "jstring \<Rightarrow> ProtocolFamily" where
  "classify line = first_match family_patterns line"

text \<open>The parts of a handler result.\<close>

definition completion_of :: "'a completion \<times> frag \<times> event list \<Rightarrow> 'a completion" where
  "completion_of r = fst r"

definition frag_of :: "'a completion \<times> frag \<times> event list \<Rightarrow> frag" where
  "frag_of r = fst (snd r)"

definition events_of :: "'a completion \<times> frag \<times> event list \<Rightarrow> event list" where
  "events_of r = snd (snd r)"

section \<open>Example inputs\<close>

definition example_config :: config where
  "example_config =
     \<lparr>cfg_identifier = JSStr (str ''reader''), cfg_sendFunctionCode = JSBool False,
      cfg_useTimestamp = JSBool True,
      cfg_EAS = Some \<lparr>excludeEvents = [], includeFIPS = [], addressAddType = JSBool True\<rparr>\<rparr>"

text \<open>
  A run of the handler at Unix time 1700000000, with a parser that accepts the one
  timestamp of the examples and a SAME decoder that returns no result.
\<close>

definition example_env :: env where
  "example_env =
     \<lparr>now = 1700000000, now_eas = 1700000001,
      moment_unix = (\<lambda>s. if s = str ''2020-01-01 12:00:00'' then Some 1577880000 else None),
      SAME_decode = (\<lambda>line ex fips. Inr None)\<rparr>"

definition line_pocsag :: jstring where
  "line_pocsag = str ''POCSAG512: Address: 1234567  Function: 3  Alpha: TEST MESSAGE''"

definition line_pocsag_flex :: jstring where
  "line_pocsag_flex = str ''POCSAG512: Address: 1234567  Function: 3  Alpha: FLEX: [7654321] ALN X''"

definition line_pocsag_token :: jstring where
  "line_pocsag_token = str ''POCSAG512: Address: 1234567  Function: 3  Alpha: <NUL>''"

definition line_pocsag_dated :: jstring where
  "line_pocsag_dated =
     str ''POCSAG512: Address: 1234567  Function: 3  Alpha: 2020-01-01 12:00:00 TEST''"

definition line_flex_F :: jstring where
  "line_flex_F = str ''FLEX: 2020-01-01 12:00:00 1600/2/F/A 01.001 [0012345] ALN HELLO ''"

definition line_flex_C :: jstring where
  "line_flex_C = str ''FLEX: 2020-01-01 12:00:00 1600/2/C/A 01.001 [0012345] ALN WORLD''"

definition line_flex_K :: jstring where
  "line_flex_K = str ''FLEX: 2020-01-01 12:00:00 1600/2/K/A 01.001 [001234567] ALN HI''"

definition line_flex_short_F :: jstring where
  "line_flex_short_F = str ''FLEX: 2020-01-01 12:00:00 1600/2/F/A 01.001 [12] ALN HELLO ''"

definition line_flex_short_C :: jstring where
  "line_flex_short_C = str ''FLEX: 2020-01-01 12:00:00 1600/2/C/A 01.001 [12] ALN WORLD''"

definition line_eas :: jstring where
  "line_eas = str ''EAS: ZCZC-WXR-RWT-012345+0030-1231200-KXYZ/NWS-''"

definition line_unknown :: jstring where
  "line_unknown = str ''multimon-ng 1.1.8''"

definition example_clock :: "nat \<Rightarrow> env" where
  "example_clock k = example_env"

text \<open>
  A standard input whose first line holds the control byte 3, followed by a well-formed
  POCSAG line.
\<close>

definition line_pocsag_before_ctrl :: jstring where
  "line_pocsag_before_ctrl = str ''POCSAG512: Address: 1234567  Function: 3  Alpha: A''"

definition stdin_interrupted :: jstring where
  "stdin_interrupted =
     line_pocsag_before_ctrl @ 3 # (str ''B'' @ [10] @ line_pocsag @ [10])"

section \<open>Properties of the handler\<close>

lemma sent_append: "sent (xs @ ys) = sent xs @ sent ys"
  by (induction xs rule: sent.induct) simp_all

lemma sent_set: "f \<in> set (sent evs) \<longleftrightarrow> SendPage f \<in> set evs"
  by (induction evs rule: sent.induct) auto

lemma pocsag_payload_sent: "pocsag_payload cfg e line l = (l', ev) \<Longrightarrow> sent ev = []"
  by (auto simp: pocsag_payload_def split: if_splits option.splits prod.splits)

lemma pocsag_branch_sent: "pocsag_branch cfg e line l = (c, ev) \<Longrightarrow> sent ev = []"
  by (auto simp: pocsag_branch_def sent_append split: if_splits option.splits prod.splits
           dest: pocsag_payload_sent)

lemma flex_branch_sent: "flex_branch cfg e fr line l = (c, fr', ev) \<Longrightarrow> sent ev = []"
  by (auto simp: flex_branch_def Let_def split: if_splits option.splits prod.splits)

lemma eas_branch_sent: "eas_branch cfg e line l = (c, ev) \<Longrightarrow> sent ev = []"
  by (auto simp: eas_branch_def split: option.splits sum.splits)

lemma decode_sent: "decode cfg e fr line = (c, fr', ev) \<Longrightarrow> sent ev = []"
  by (auto simp: decode_def Let_def split: if_splits prod.splits
           dest: pocsag_branch_sent flex_branch_sent eas_branch_sent)

lemma on_line_Normal:
  "decode cfg e fr line = (Normal l, fr1, ev1) \<Longrightarrow>
   on_line cfg e fr line =
     (Normal (), fr1,
      ev1 @ (case passes_filter l of
               Inl err \<Rightarrow> [ErrorProcessing line err]
             | Inr b \<Rightarrow>
                 if b then
                   [LogMessage (padDigits (address l) 7) (trimMessage l),
                    SendPage \<lparr>form_address = padDigits (address l) 7,
                              form_message = trimMessage l, form_datetime = datetime l,
                              form_source = cfg_identifier cfg\<rparr>]
                 else [LogLine line]))"
  by (auto simp: on_line_def try_catch_def line_body_def emit_def Let_def
           split: sum.splits bool.splits)

lemma on_line_Return:
  "decode cfg e fr line = (Return, fr1, ev1) \<Longrightarrow> on_line cfg e fr line = (Return, fr1, ev1)"
  by (simp add: on_line_def try_catch_def line_body_def)

lemma on_line_Throw:
  "decode cfg e fr line = (Throw err, fr1, ev1) \<Longrightarrow>
   on_line cfg e fr line = (Normal (), fr1, ev1 @ [ErrorProcessing line err])"
  by (simp add: on_line_def try_catch_def line_body_def)

lemma passes_filter_True:
  "passes_filter l = Inr True \<longleftrightarrow> (\<exists>a. address l = JSStr a \<and> 2 < length a \<and> truthy (message l))"
  by (auto simp: passes_filter_def split: jsval.splits)

text \<open>What a run of the handler sends, by the result of decoding.\<close>

lemma on_line_sent:
  "sent (events_of (on_line cfg e fr line)) =
     (case decode cfg e fr line of
        (Normal l, fr1, ev1) \<Rightarrow>
          if passes_filter l = Inr True then
            [\<lparr>form_address = padDigits (address l) 7, form_message = trimMessage l,
              form_datetime = datetime l, form_source = cfg_identifier cfg\<rparr>]
          else []
      | _ \<Rightarrow> [])"
proof (cases "decode cfg e fr line")
  case (fields c fr1 ev1)
  have s: "sent ev1 = []" using fields by (rule decode_sent)
  show ?thesis
  proof (cases c)
    case (Normal l)
    with fields have "decode cfg e fr line = (Normal l, fr1, ev1)" by simp
    from on_line_Normal[OF this] s fields Normal show ?thesis
      by (auto simp: events_of_def sent_append split: sum.splits)
  next
    case Return
    with fields have "decode cfg e fr line = (Return, fr1, ev1)" by simp
    from on_line_Return[OF this] s fields Return show ?thesis
      by (simp add: events_of_def)
  next
    case (Throw err)
    with fields have "decode cfg e fr line = (Throw err, fr1, ev1)" by simp
    from on_line_Throw[OF this] s fields Throw show ?thesis
      by (simp add: events_of_def sent_append)
  qed
qed

lemma on_line_frag: "frag_of (on_line cfg e fr line) = fst (snd (decode cfg e fr line))"
proof (cases "decode cfg e fr line")
  case (fields c fr1 ev1)
  show ?thesis
  proof (cases c)
    case (Normal l)
    with fields have "decode cfg e fr line = (Normal l, fr1, ev1)" by simp
    from on_line_Normal[OF this] fields show ?thesis by (simp add: frag_of_def)
  next
    case Return
    with fields have "decode cfg e fr line = (Return, fr1, ev1)" by simp
    from on_line_Return[OF this] fields show ?thesis by (simp add: frag_of_def)
  next
    case (Throw err)
    with fields have "decode cfg e fr line = (Throw err, fr1, ev1)" by simp
    from on_line_Throw[OF this] fields show ?thesis by (simp add: frag_of_def)
  qed
qed

lemma group_of_test: "group_of (js_match line r) n = Some g \<Longrightarrow> test r line"
  by (auto simp: group_of_def test_def split: option.splits)

text \<open>A FLEX line that reaches the fragmentation block.\<close>

lemma decode_flex_frame:
  assumes "\<not> test POCSAG_LINE_REGEX line"
    and "group_of (js_match line FLEX_ADDRESS_REGEX) 1 = Some g"
    and "test ALN_GPN_NUM_REGEX line"
    and "group_of (js_match line FLEX_MESSAGE_REGEX) 1 = Some t"
  shows "decode cfg e fr line =
           (let l1 = (initial_locals e)\<lparr>address := JSStr (trim g),
                       datetime := (if truthy (useTimestamp cfg)
                                    then flex_timestamp e line (now e) else now e)\<rparr>;
                (l2, fr') = flex_fragment fr line (trim g) (trim t) l1
            in (Normal l2, fr', []))"
  using assms group_of_test[OF assms(2)]
  by (simp add: decode_def flex_branch_def Let_def initial_locals_def)

lemma on_line_completion:
  "completion_of (on_line cfg e fr line) = Normal () \<or>
   completion_of (on_line cfg e fr line) = Return"
proof (cases "decode cfg e fr line")
  case (fields c fr1 ev1)
  show ?thesis
  proof (cases c)
    case (Normal l)
    with fields have "decode cfg e fr line = (Normal l, fr1, ev1)" by simp
    from on_line_Normal[OF this] show ?thesis by (simp add: completion_of_def)
  next
    case Return
    with fields have "decode cfg e fr line = (Return, fr1, ev1)" by simp
    from on_line_Return[OF this] show ?thesis by (simp add: completion_of_def)
  next
    case (Throw err)
    with fields have "decode cfg e fr line = (Throw err, fr1, ev1)" by simp
    from on_line_Throw[OF this] show ?thesis by (simp add: completion_of_def)
  qed
qed

lemma rl_lines_Cons:
  "rl_lines cfg fr ((e, line) # rest) =
     (let (c', fr'', ev') = rl_lines cfg (frag_of (on_line cfg e fr line)) rest
      in (c', fr'', events_of (on_line cfg e fr line) @ ev'))"
proof (cases "on_line cfg e fr line")
  case (fields c fr1 ev1)
  from on_line_completion[of cfg e fr line] fields
  have "c = Normal () \<or> c = Return" by (simp add: completion_of_def)
  with fields show ?thesis by (auto simp: frag_of_def events_of_def)
qed

lemma rl_lines_completion: "completion_of (rl_lines cfg fr inputs) = Normal ()"
proof (induction inputs arbitrary: fr)
  case Nil
  show ?case by (simp add: completion_of_def)
next
  case (Cons x inputs)
  obtain e line where x: "x = (e, line)" by (cases x)
  from Cons[of "frag_of (on_line cfg e fr line)"] show ?case
    unfolding x rl_lines_Cons by (auto simp: completion_of_def split: prod.splits)
qed

lemma rl_lines_append:
  "rl_lines cfg fr (xs @ ys) =
     (let (c, fr1, ev) = rl_lines cfg fr xs; (c', fr2, ev') = rl_lines cfg fr1 ys
      in (c', fr2, ev @ ev'))"
proof (induction xs arbitrary: fr)
  case Nil
  show ?case by simp
next
  case (Cons x xs)
  obtain e line where x: "x = (e, line)" by (cases x)
  show ?case
    unfolding x append_Cons rl_lines_Cons Cons by (simp add: Let_def split: prod.splits)
qed

lemma decode_message_pocsag:
  assumes "test POCSAG_LINE_REGEX line" and "decode cfg e fr line = (Normal l, fr1, ev1)"
    and "truthy (message l)"
  shows "\<exists>m. message l = JSStr m \<and> m \<noteq> [] \<and>
             (trimMessage l = JSStr (trim (strip_tokens m)) \<or>
              trimMessage l = JSStr (strip_tokens m))"
  using assms
  by (auto simp: decode_def pocsag_branch_def pocsag_payload_def initial_locals_def Let_def
           split: if_splits option.splits prod.splits)

lemma flex_fragment_message:
  "flex_fragment fr line a m l = (l', fr') \<Longrightarrow> truthy (message l') \<Longrightarrow>
   m \<noteq> [] \<and> message l' = JSStr m \<and> (\<exists>p. trimMessage l' = JSStr (p @ m))"
  by (auto simp: flex_fragment_def split: if_splits)

lemma decode_message_other:
  assumes "\<not> test POCSAG_LINE_REGEX line" and "decode cfg e fr line = (Normal l, fr1, ev1)"
    and "truthy (message l)"
  shows "truthy (trimMessage l)"
proof (cases "test FLEX_ADDRESS_REGEX line")
  case True
  with assms show ?thesis
    by (auto simp: decode_def flex_branch_def initial_locals_def Let_def
             split: if_splits option.splits prod.splits dest!: flex_fragment_message)
next
  case False
  with assms show ?thesis
    by (auto simp: decode_def eas_branch_def initial_locals_def Let_def
             split: if_splits option.splits prod.splits sum.splits)
qed

lemma padStart_zero:
  "padStart a n (str ''0'') = replicate (n - length a) (of_char CHR ''0'') @ a"
  by (simp add: padStart_def str_def)

lemma on_line_SendPage:
  assumes "SendPage f \<in> set (events_of (on_line cfg e fr line))"
  shows "\<exists>l fr1 ev1. decode cfg e fr line = (Normal l, fr1, ev1) \<and>
           passes_filter l = Inr True \<and>
           f = \<lparr>form_address = padDigits (address l) 7, form_message = trimMessage l,
                 form_datetime = datetime l, form_source = cfg_identifier cfg\<rparr>"
proof -
  from assms have "f \<in> set (sent (events_of (on_line cfg e fr line)))"
    by (simp add: sent_set)
  then show ?thesis
    by (cases "decode cfg e fr line")
       (auto simp: on_line_sent split: completion.splits if_splits)
qed

lemma trim_HELLO: "trim (str ''HELLO '') = str ''HELLO''"
  and trim_WORLD: "trim (str ''WORLD'') = str ''WORLD''"
  and HELLO_WORLD: "str ''HELLO'' @ str ''WORLD'' = str ''HELLOWORLD''"
  and HELLO_nonempty: "str ''HELLO'' \<noteq> []"
  and WORLD_nonempty: "str ''WORLD'' \<noteq> []"
  by (simp_all add: trim_def str_def white_space_def)

lemma useTimestamp_truthy: "truthy (useTimestamp cfg)"
  by (simp add: useTimestamp_def js_or_def)

lemma sendPage_all_fail:
  "retries \<le> 10 \<Longrightarrow>
   sendPage (\<lambda>n. False) retries =
     concat (map (\<lambda>k. [Post, FailedToDeliver, RetryIn (2 ^ k * 1000)]) [retries..<10]) @
     [Post, FailedToDeliver, GivingUp]"
proof (induction "10 - retries" arbitrary: retries)
  case 0
  then have "retries = 10" by simp
  then show ?case by (simp add: sendPage.simps)
next
  case (Suc d)
  then have lt: "retries < 10" and d: "d = 10 - (retries + 1)" and le: "retries + 1 \<le> 10"
    by simp_all
  have "sendPage (\<lambda>n. False) retries =
          [Post, FailedToDeliver, RetryIn (2 ^ retries * 1000)] @
          sendPage (\<lambda>n. False) (retries + 1)"
    using lt by (subst sendPage.simps) simp
  also have "sendPage (\<lambda>n. False) (retries + 1) =
     concat (map (\<lambda>k. [Post, FailedToDeliver, RetryIn (2 ^ k * 1000)]) [retries + 1..<10]) @
     [Post, FailedToDeliver, GivingUp]"
    using Suc.hyps(1)[OF d le] .
  finally show ?case using lt by (simp add: upt_conv_Cons)
qed

lemma inserted_key_not_special: "inserted_key c \<Longrightarrow> c \<noteq> 3 \<and> c \<noteq> 10"
  by (auto simp: inserted_key_def)

lemma terminal_lines_inserted:
  "\<forall>c\<in>set l. inserted_key c \<Longrightarrow> terminal_lines cur (l @ rest) = terminal_lines (cur @ l) rest"
proof (induction l arbitrary: cur)
  case Nil
  show ?case by simp
next
  case (Cons c l)
  then have c: "inserted_key c" and l: "\<forall>c\<in>set l. inserted_key c" by simp_all
  from inserted_key_not_special[OF c] c Cons.IH[OF l, of "cur @ [c]"]
  show ?case by simp
qed

lemma terminal_lines_interrupt:
  "terminal_lines cur (pre @ 3 # post) = terminal_lines cur (pre @ [3])"
  by (induction pre arbitrary: cur) simp_all

lemma terminal_lines_unlines:
  assumes "\<forall>l\<in>set ls. \<forall>c\<in>set l. inserted_key c"
  shows "terminal_lines [] (unlines ls @ rest) =
           (case terminal_lines [] rest of
              None \<Rightarrow> None
            | Some (ls', why) \<Rightarrow> Some (ls @ ls', why))"
  using assms
proof (induction ls)
  case Nil
  show ?case by (simp add: unlines_def split: option.splits)
next
  case (Cons l ls)
  then have l: "\<forall>c\<in>set l. inserted_key c" and ls: "\<forall>l\<in>set ls. \<forall>c\<in>set l. inserted_key c"
    by simp_all
  have "terminal_lines [] (unlines (l # ls) @ rest) =
          terminal_lines [] (l @ 10 # (unlines ls @ rest))"
    by (simp add: unlines_def)
  also have "\<dots> = terminal_lines l (10 # (unlines ls @ rest))"
    using terminal_lines_inserted[OF l, of "[]"] by simp
  also have "\<dots> = (case terminal_lines [] (unlines ls @ rest) of
                      None \<Rightarrow> None
                    | Some (ls', why) \<Rightarrow> Some (l # ls', why))"
    by simp
  finally show ?case
    unfolding Cons.IH[OF ls] by (simp split: option.splits)
qed

lemma terminal_lines_complete:
  assumes "\<forall>l\<in>set ls. \<forall>c\<in>set l. inserted_key c"
  shows "terminal_lines [] (unlines ls) = Some (ls, EndOfInput)"
  using terminal_lines_unlines[OF assms, of "[]"] by simp

lemma terminal_lines_cut:
  assumes "\<forall>l\<in>set ls. \<forall>c\<in>set l. inserted_key c" and "\<forall>c\<in>set partial. inserted_key c"
  shows "terminal_lines [] (unlines ls @ partial @ 3 # post) = Some (ls, Interrupt)"
proof -
  have "terminal_lines [] (partial @ 3 # post) = Some ([], Interrupt)"
    using terminal_lines_inserted[OF assms(2), of "[]" "3 # post"] by simp
  with terminal_lines_unlines[OF assms(1), of "partial @ 3 # post"] show ?thesis by simp
qed

section \<open>The handler on the example inputs\<close>

lemma Times_2: "Times 2 r = Seq r (Seq r Eps)"
  and Times_3: "Times 3 r = Seq r (Seq r (Seq r Eps))"
  and Times_4: "Times 4 r = Seq r (Seq r (Seq r (Seq r Eps)))"
  by (simp_all add: eval_nat_numeral)

lemmas regex_defs =
  POCSAG_LINE_REGEX_def POCSAG_ADDRESS_REGEX_def POCSAG_FUNCTION_REGEX_def
  FLEX_ADDRESS_REGEX_def FLEX_MESSAGE_REGEX_def ALN_GPN_NUM_REGEX_def EAS_REGEX_def
  ALPHA_REGEX_def NUMERIC_REGEX_def LONG_DATE_REGEX_def ISO_DATE_REGEX_def
  FLEX_PREFIX_REGEX_def FLEX_LONG_DATE_REGEX_def FLEX_ISO_DATE_REGEX_def
  CONTROL_TOKEN_REGEX_def FRAG_CODE_REGEX_def

lemmas engine_defs =
  seqs_def Plus_def Opt_def Times_2 Times_3 Times_4 match_here_def js_match_def test_def
  group_of_def search.simps replace_all.simps replace_first_def str_def one_of_def digit_def
  letter_def word_char_def any_char_def digit_or_space_def white_space_def trim_def

lemmas handler_defs =
  on_line_def try_catch_def line_body_def decode_def emit_def passes_filter_def
  pocsag_branch_def pocsag_payload_def alpha_timestamp_def flex_branch_def flex_fragment_def
  flex_timestamp_def eas_branch_def initial_locals_def strip_tokens_def padDigits_def
  padStart_def sendFunctionCode_def useTimestamp_def EASOpts_def js_or_def Let_def
  example_config_def example_env_def

lemma run_pocsag:
  "on_line example_config example_env Map.empty line_pocsag =
     (Normal (), Map.empty,
      [LogMessage (str ''1234567'') (JSStr (str ''TEST MESSAGE'')),
       SendPage \<lparr>form_address = str ''1234567'', form_message = JSStr (str ''TEST MESSAGE''),
                 form_datetime = 1700000000, form_source = JSStr (str ''reader'')\<rparr>])"
  by (simp add: line_pocsag_def regex_defs engine_defs handler_defs)

lemma run_pocsag_flex:
  "on_line example_config example_env Map.empty line_pocsag_flex =
     (Normal (), Map.empty,
      [LogMessage (str ''1234567'') (JSStr (str ''FLEX: [7654321] ALN X'')),
       SendPage \<lparr>form_address = str ''1234567'',
                 form_message = JSStr (str ''FLEX: [7654321] ALN X''),
                 form_datetime = 1700000000, form_source = JSStr (str ''reader'')\<rparr>])"
  by (simp add: line_pocsag_flex_def regex_defs engine_defs handler_defs)

lemma run_pocsag_token:
  "on_line example_config example_env Map.empty line_pocsag_token =
     (Normal (), Map.empty,
      [LogMessage (str ''1234567'') (JSStr []),
       SendPage \<lparr>form_address = str ''1234567'', form_message = JSStr [],
                 form_datetime = 1700000000, form_source = JSStr (str ''reader'')\<rparr>])"
  by (simp add: line_pocsag_token_def regex_defs engine_defs handler_defs)

lemma run_pocsag_dated:
  "on_line (example_config\<lparr>cfg_useTimestamp := JSBool False\<rparr>) example_env Map.empty
       line_pocsag_dated =
     (Normal (), Map.empty,
      [LogMessage (str ''1234567'') (JSStr (str ''TEST'')),
       SendPage \<lparr>form_address = str ''1234567'', form_message = JSStr (str ''TEST''),
                 form_datetime = 1577880000, form_source = JSStr (str ''reader'')\<rparr>])"
  by (simp add: line_pocsag_dated_def regex_defs engine_defs handler_defs)

lemma run_flex_F:
  "on_line example_config example_env Map.empty line_flex_F =
     (Normal (), [str ''0012345'' \<mapsto> str ''HELLO''], [LogLine line_flex_F])"
  by (simp add: line_flex_F_def regex_defs engine_defs handler_defs)

lemma run_flex_C:
  "on_line example_config example_env [str ''0012345'' \<mapsto> str ''HELLO''] line_flex_C =
     (Normal (), Map.empty,
      [LogMessage (str ''0012345'') (JSStr (str ''HELLOWORLD'')),
       SendPage \<lparr>form_address = str ''0012345'', form_message = JSStr (str ''HELLOWORLD''),
                 form_datetime = 1577880000, form_source = JSStr (str ''reader'')\<rparr>])"
  by (simp add: line_flex_C_def regex_defs engine_defs handler_defs)

lemma run_flex_K:
  "on_line example_config example_env Map.empty line_flex_K =
     (Normal (), Map.empty,
      [LogMessage (str ''001234567'') (JSStr (str ''HI'')),
       SendPage \<lparr>form_address = str ''001234567'', form_message = JSStr (str ''HI''),
                 form_datetime = 1577880000, form_source = JSStr (str ''reader'')\<rparr>])"
  by (simp add: line_flex_K_def regex_defs engine_defs handler_defs)

lemma run_flex_short_F:
  "on_line example_config example_env Map.empty line_flex_short_F =
     (Normal (), [str ''12'' \<mapsto> str ''HELLO''], [LogLine line_flex_short_F])"
  by (simp add: line_flex_short_F_def regex_defs engine_defs handler_defs)

lemma run_flex_short_C:
  "on_line example_config example_env [str ''12'' \<mapsto> str ''HELLO''] line_flex_short_C =
     (Normal (), Map.empty, [LogLine line_flex_short_C])"
  by (simp add: line_flex_short_C_def regex_defs engine_defs handler_defs)

lemma run_eas:
  "on_line example_config example_env Map.empty line_eas =
     (Normal (), Map.empty, [Failed NoEasDecode line_eas, LogLine line_eas])"
  by (simp add: line_eas_def regex_defs engine_defs handler_defs)

lemma run_eas_no_opts:
  "line_body (example_config\<lparr>cfg_EAS := None\<rparr>) example_env Map.empty line_eas =
     (Throw TypeError, Map.empty, [])"
  by (simp add: line_eas_def regex_defs engine_defs handler_defs)

lemma run_unknown:
  "on_line example_config example_env Map.empty line_unknown =
     (Normal (), Map.empty, [LogLine line_unknown])"
  by (simp add: line_unknown_def regex_defs engine_defs handler_defs)

lemma run_pocsag_no_opts:
  "on_line (example_config\<lparr>cfg_EAS := None\<rparr>) example_env Map.empty line_pocsag =
     (Normal (), Map.empty,
      [LogMessage (str ''1234567'') (JSStr (str ''TEST MESSAGE'')),
       SendPage \<lparr>form_address = str ''1234567'', form_message = JSStr (str ''TEST MESSAGE''),
                 form_datetime = 1700000000, form_source = JSStr (str ''reader'')\<rparr>])"
  by (simp add: line_pocsag_def regex_defs engine_defs handler_defs)

lemma line_flex_F_facts:
  "\<not> test POCSAG_LINE_REGEX line_flex_F"
  "group_of (js_match line_flex_F FLEX_ADDRESS_REGEX) 1 = Some (str ''0012345'')"
  "test ALN_GPN_NUM_REGEX line_flex_F"
  "group_of (js_match line_flex_F FLEX_MESSAGE_REGEX) 1 = Some (str ''HELLO '')"
  "test (FRAG_CODE_REGEX ''F'') line_flex_F"
  by (simp_all add: line_flex_F_def regex_defs engine_defs)

lemma line_flex_C_facts:
  "\<not> test POCSAG_LINE_REGEX line_flex_C"
  "group_of (js_match line_flex_C FLEX_ADDRESS_REGEX) 1 = Some (str ''0012345'')"
  "test ALN_GPN_NUM_REGEX line_flex_C"
  "group_of (js_match line_flex_C FLEX_MESSAGE_REGEX) 1 = Some (str ''WORLD'')"
  "\<not> test (FRAG_CODE_REGEX ''F'') line_flex_C"
  "test (FRAG_CODE_REGEX ''C'') line_flex_C"
  by (simp_all add: line_flex_C_def regex_defs engine_defs)


lemma line_flex_short_facts:
  "group_of (js_match line_flex_short_F FLEX_ADDRESS_REGEX) 1 = Some (str ''12'')"
  "group_of (js_match line_flex_short_F FLEX_MESSAGE_REGEX) 1 = Some (str ''HELLO '')"
  "test (FRAG_CODE_REGEX ''F'') line_flex_short_F"
  "group_of (js_match line_flex_short_C FLEX_ADDRESS_REGEX) 1 = Some (str ''12'')"
  "group_of (js_match line_flex_short_C FLEX_MESSAGE_REGEX) 1 = Some (str ''WORLD'')"
  "test (FRAG_CODE_REGEX ''C'') line_flex_short_C"
  by (simp_all add: line_flex_short_F_def line_flex_short_C_def regex_defs engine_defs)

lemma line_pocsag_flex_facts:
  "test POCSAG_LINE_REGEX line_pocsag_flex"
  "test FLEX_ADDRESS_REGEX line_pocsag_flex"
  by (simp_all add: line_pocsag_flex_def regex_defs engine_defs)

lemma line_unknown_facts:
  "\<not> test POCSAG_LINE_REGEX line_unknown"
  "\<not> test FLEX_ADDRESS_REGEX line_unknown"
  "\<not> test EAS_REGEX line_unknown"
  by (simp_all add: line_unknown_def regex_defs engine_defs)

lemma line_eas_facts:
  "\<not> test POCSAG_LINE_REGEX line_eas"
  "\<not> test FLEX_ADDRESS_REGEX line_eas"
  "test EAS_REGEX line_eas"
  by (simp_all add: line_eas_def regex_defs engine_defs)

lemma trim_example_address:
  "trim (str ''0012345'') = str ''0012345''"
  "2 < length (str ''0012345'')"
  by (simp_all add: trim_def str_def white_space_def)

lemma run_fragment_pair:
  "rl_lines example_config Map.empty [(example_env, line_flex_F), (example_env, line_flex_C)] =
     (Normal (), Map.empty,
      [LogLine line_flex_F,
       LogMessage (str ''0012345'') (JSStr (str ''HELLOWORLD'')),
       SendPage \<lparr>form_address = str ''0012345'', form_message = JSStr (str ''HELLOWORLD''),
                 form_datetime = 1577880000, form_source = JSStr (str ''reader'')\<rparr>])"
  by (simp add: run_flex_F run_flex_C)

lemma run_short_fragment_pair:
  "rl_lines example_config Map.empty
       [(example_env, line_flex_short_F), (example_env, line_flex_short_C)] =
     (Normal (), Map.empty, [LogLine line_flex_short_F, LogLine line_flex_short_C])"
  by (simp add: run_flex_short_F run_flex_short_C)

section \<open>The claims\<close>

text \<open>
  Claim C1, as amended. Take a FLEX line for an address \<open>A\<close> of more than two characters
  whose fragmentation code is \<open>NNNN/D/F/D\<close> and whose payload pattern captures
  \<open>"HELLO "\<close>, and a later FLEX line for \<open>A\<close> with code \<open>NNNN/D/C/D\<close> whose payload pattern
  captures \<open>"WORLD"\<close>, the store entry of \<open>A\<close> being untouched in between. The first line
  sends nothing, the second sends exactly one message, and its text is \<open>"HELLOWORLD"\<close>:
  each captured text is trimmed before it is stored or concatenated. Afterwards the
  store has no entry for \<open>A\<close>.
\<close>

theorem flex_fragment_roundtrip:
  assumes F: "\<not> test POCSAG_LINE_REGEX lineF"
      "group_of (js_match lineF FLEX_ADDRESS_REGEX) 1 = Some gF"
      "test ALN_GPN_NUM_REGEX lineF"
      "group_of (js_match lineF FLEX_MESSAGE_REGEX) 1 = Some (str ''HELLO '')"
      "test (FRAG_CODE_REGEX ''F'') lineF"
    and C: "\<not> test POCSAG_LINE_REGEX lineC"
      "group_of (js_match lineC FLEX_ADDRESS_REGEX) 1 = Some gC"
      "test ALN_GPN_NUM_REGEX lineC"
      "group_of (js_match lineC FLEX_MESSAGE_REGEX) 1 = Some (str ''WORLD'')"
      "\<not> test (FRAG_CODE_REGEX ''F'') lineC"
      "test (FRAG_CODE_REGEX ''C'') lineC"
    and A: "trim gF = A" "trim gC = A" "2 < length A"
    and later: "frB A = frag_of (on_line cfg envF fr lineF) A"
  shows "sent (events_of (on_line cfg envF fr lineF)) = [] \<and>
         map form_message (sent (events_of (on_line cfg envC frB lineC))) =
           [JSStr (str ''HELLOWORLD'')] \<and>
         map form_address (sent (events_of (on_line cfg envC frB lineC))) =
           [padDigits (JSStr A) 7] \<and>
         frag_of (on_line cfg envC frB lineC) A = None \<and>
         map form_message (sent (events_of (rl_lines cfg fr [(envF, lineF), (envC, lineC)]))) =
           [JSStr (str ''HELLOWORLD'')] \<and>
         frag_of (rl_lines cfg fr [(envF, lineF), (envC, lineC)]) A = None"
proof -
  have stored: "frag_of (on_line cfg envF fr lineF) = fr(A \<mapsto> str ''HELLO'')"
    unfolding on_line_frag decode_flex_frame[OF F(1-4)]
    using F(5) A(1) by (simp add: flex_fragment_def Let_def trim_HELLO)
  have noneF: "sent (events_of (on_line cfg envF fr lineF)) = []"
    unfolding on_line_sent decode_flex_frame[OF F(1-4)]
    using F(5) by (simp add: flex_fragment_def Let_def passes_filter_def)
  have sentC: "sent (events_of (on_line cfg envC fr' lineC)) =
      [\<lparr>form_address = padDigits (JSStr A) 7, form_message = JSStr (str ''HELLOWORLD''),
        form_datetime = (if truthy (useTimestamp cfg)
                         then flex_timestamp envC lineC (now envC) else now envC),
        form_source = cfg_identifier cfg\<rparr>]"
    if "fr' A = Some (str ''HELLO'')" for fr'
    unfolding on_line_sent decode_flex_frame[OF C(1-4)]
    using C(5,6) A(2,3) that
    by (simp add: flex_fragment_def Let_def passes_filter_def trim_WORLD HELLO_WORLD
          HELLO_nonempty WORLD_nonempty initial_locals_def)
  have gone: "frag_of (on_line cfg envC fr' lineC) A = None" for fr'
    unfolding on_line_frag decode_flex_frame[OF C(1-4)]
    using C(5,6) A(2) by (simp add: flex_fragment_def Let_def)
  have frB: "frB A = Some (str ''HELLO'')"
    using later stored by simp
  have both: "rl_lines cfg fr [(envF, lineF), (envC, lineC)] =
      (Normal (), frag_of (on_line cfg envC (frag_of (on_line cfg envF fr lineF)) lineC),
       events_of (on_line cfg envF fr lineF) @
       events_of (on_line cfg envC (frag_of (on_line cfg envF fr lineF)) lineC))"
    unfolding rl_lines_Cons by simp
  have "sent (events_of (rl_lines cfg fr [(envF, lineF), (envC, lineC)])) =
          sent (events_of (on_line cfg envC (frag_of (on_line cfg envF fr lineF)) lineC))"
    unfolding both by (simp add: events_of_def sent_append noneF[unfolded events_of_def])
  moreover have "frag_of (rl_lines cfg fr [(envF, lineF), (envC, lineC)]) A = None"
    unfolding both using gone by (simp add: frag_of_def)
  moreover have "(frag_of (on_line cfg envF fr lineF)) A = Some (str ''HELLO'')"
    using stored by simp
  ultimately show ?thesis
    using noneF sentC[of frB, OF frB] gone[of frB]
      sentC[of "frag_of (on_line cfg envF fr lineF)"]
    by simp
qed

theorem flex_fragment_roundtrip_witness:
  "group_of (js_match line_flex_F FLEX_MESSAGE_REGEX) 1 = Some (str ''HELLO '') \<and>
   test (FRAG_CODE_REGEX ''F'') line_flex_F \<and>
   group_of (js_match line_flex_C FLEX_MESSAGE_REGEX) 1 = Some (str ''WORLD'') \<and>
   test (FRAG_CODE_REGEX ''C'') line_flex_C \<and>
   2 < length (str ''0012345'') \<and>
   map form_message
     (sent (events_of (rl_lines example_config Map.empty
        [(example_env, line_flex_F), (example_env, line_flex_C)]))) =
     [JSStr (str ''HELLOWORLD'')] \<and>
   frag_of (rl_lines example_config Map.empty
        [(example_env, line_flex_F), (example_env, line_flex_C)]) (str ''0012345'') = None"
proof -
  note r = flex_fragment_roundtrip
    [OF line_flex_F_facts line_flex_C_facts trim_example_address(1) trim_example_address(1)
        trim_example_address(2),
     where frB = "frag_of (on_line example_config example_env Map.empty line_flex_F)"
       and cfg = example_config and envF = example_env and envC = example_env
       and fr = Map.empty,
     OF refl]
  from r line_flex_F_facts line_flex_C_facts trim_example_address(2)
  show ?thesis by blast
qed

theorem flex_fragment_roundtrip_counterexample:
  "group_of (js_match line_flex_F FLEX_ADDRESS_REGEX) 1 = Some (str ''0012345'') \<and>
   group_of (js_match line_flex_F FLEX_MESSAGE_REGEX) 1 = Some (str ''HELLO '') \<and>
   test (FRAG_CODE_REGEX ''F'') line_flex_F \<and>
   group_of (js_match line_flex_C FLEX_ADDRESS_REGEX) 1 = Some (str ''0012345'') \<and>
   group_of (js_match line_flex_C FLEX_MESSAGE_REGEX) 1 = Some (str ''WORLD'') \<and>
   test (FRAG_CODE_REGEX ''C'') line_flex_C \<and>
   map form_message
     (sent (events_of (rl_lines example_config Map.empty
        [(example_env, line_flex_F), (example_env, line_flex_C)]))) =
     [JSStr (str ''HELLOWORLD'')] \<and>
   map form_message
     (sent (events_of (rl_lines example_config Map.empty
        [(example_env, line_flex_F), (example_env, line_flex_C)]))) \<noteq>
     [JSStr (str ''HELLO WORLD'')] \<and>
   group_of (js_match line_flex_short_F FLEX_ADDRESS_REGEX) 1 = Some (str ''12'') \<and>
   group_of (js_match line_flex_short_F FLEX_MESSAGE_REGEX) 1 = Some (str ''HELLO '') \<and>
   test (FRAG_CODE_REGEX ''F'') line_flex_short_F \<and>
   group_of (js_match line_flex_short_C FLEX_ADDRESS_REGEX) 1 = Some (str ''12'') \<and>
   group_of (js_match line_flex_short_C FLEX_MESSAGE_REGEX) 1 = Some (str ''WORLD'') \<and>
   test (FRAG_CODE_REGEX ''C'') line_flex_short_C \<and>
   sent (events_of (rl_lines example_config Map.empty
        [(example_env, line_flex_short_F), (example_env, line_flex_short_C)])) = []"
proof -
  have "map form_message
     (sent (events_of (rl_lines example_config Map.empty
        [(example_env, line_flex_F), (example_env, line_flex_C)]))) =
     [JSStr (str ''HELLOWORLD'')]"
    unfolding run_fragment_pair by (simp add: events_of_def)
  moreover have "str ''HELLOWORLD'' \<noteq> str ''HELLO WORLD''"
    by (simp add: str_def)
  moreover have "sent (events_of (rl_lines example_config Map.empty
        [(example_env, line_flex_short_F), (example_env, line_flex_short_C)])) = []"
    unfolding run_short_fragment_pair by (simp add: events_of_def)
  ultimately show ?thesis
    using line_flex_F_facts line_flex_C_facts line_flex_short_facts by simp
qed

text \<open>
  Claim C2. When the first request and every later one fail, \<open>sendPage(message, 0)\<close> posts,
  schedules a retry after 1000 ms, posts again, and so on with the delays doubling up to
  512000 ms: ten retries, eleven requests in all, and after the eleventh failure it gives
  up without scheduling anything further.
\<close>

theorem sendPage_retry_schedule:
  assumes "\<forall>n. \<not> rp n"
  shows "sendPage rp 0 =
           concat (map (\<lambda>k. [Post, FailedToDeliver, RetryIn (2 ^ k * 1000)]) [0..<10]) @
           [Post, FailedToDeliver, GivingUp]
         \<and> retry_delays (sendPage rp 0) =
           [1000, 2000, 4000, 8000, 16000, 32000, 64000, 128000, 256000, 512000]
         \<and> length (retry_delays (sendPage rp 0)) = 10
         \<and> length (filter (\<lambda>ev. ev = Post) (sendPage rp 0)) = 11"
proof -
  from assms have rp: "rp = (\<lambda>n. False)" by auto
  have run: "sendPage rp 0 =
           concat (map (\<lambda>k. [Post, FailedToDeliver, RetryIn (2 ^ k * 1000)]) [0..<10]) @
           [Post, FailedToDeliver, GivingUp]"
    unfolding rp by (rule sendPage_all_fail) simp
  have upt10: "[0..<10] = [0, 1, 2, 3, 4, 5, 6, 7, 8, 9::nat]"
    by (simp add: upt_rec)
  show ?thesis unfolding run upt10 by simp
qed

theorem sendPage_retry_schedule_witness:
  "(\<forall>n. \<not> (\<lambda>n::nat. False) n) \<and>
   retry_delays (sendPage (\<lambda>n. False) 0) =
     [1000, 2000, 4000, 8000, 16000, 32000, 64000, 128000, 256000, 512000]"
proof -
  have h: "\<forall>n. \<not> (\<lambda>n::nat. False) n" by simp
  from sendPage_retry_schedule [OF h]
  have "retry_delays (sendPage (\<lambda>n. False) 0) =
     [1000, 2000, 4000, 8000, 16000, 32000, 64000, 128000, 256000, 512000]"
    by (elim conjE)
  with h show ?thesis by (intro conjI)
qed

text \<open>
  Claim C3 fails on the code. \<open>nconf.get('useTimestamp') || true\<close> is truthy whatever the
  configuration holds, \<open>false\<close> included, so the timestamp blocks always run: with
  \<open>useTimestamp\<close> configured as \<open>false\<close>, the POCSAG Alpha payload
  \<open>"2020-01-01 12:00:00 TEST"\<close> is sent as \<open>"TEST"\<close> with the embedded time as its
  \<open>datetime\<close>, not the current time.
\<close>

theorem useTimestamp_false_is_ignored:
  "truthy (useTimestamp cfg) \<and>
   useTimestamp (cfg\<lparr>cfg_useTimestamp := JSBool False\<rparr>) = JSBool True \<and>
   now example_env = 1700000000 \<and>
   on_line (example_config\<lparr>cfg_useTimestamp := JSBool False\<rparr>) example_env Map.empty
       line_pocsag_dated =
     (Normal (), Map.empty,
      [LogMessage (str ''1234567'') (JSStr (str ''TEST'')),
       SendPage \<lparr>form_address = str ''1234567'', form_message = JSStr (str ''TEST''),
                 form_datetime = 1577880000, form_source = JSStr (str ''reader'')\<rparr>])"
  using useTimestamp_truthy[of cfg] run_pocsag_dated
  by (simp add: useTimestamp_def js_or_def example_env_def)

text \<open>
  Claim C4, as amended. The address of every message handed to \<open>sendPage\<close> is the decoded
  address with \<open>'0'\<close> characters in front up to a width of 7; it is never cut, so its
  length is the larger of 7 and the length of the decoded address, and exactly 7 when the
  decoded address has at most 7 characters. The decoded address \<open>"123"\<close> becomes
  \<open>"0000123"\<close>.
\<close>

theorem address_padding:
  "(SendPage f \<in> set (events_of (on_line cfg e fr line)) \<longrightarrow>
      (\<exists>l fr1 ev1 a. decode cfg e fr line = (Normal l, fr1, ev1) \<and> address l = JSStr a \<and>
         form_address f = replicate (7 - length a) (of_char CHR ''0'') @ a \<and>
         length (form_address f) = max 7 (length a) \<and>
         (length a \<le> 7 \<longrightarrow> length (form_address f) = 7))) \<and>
   padDigits (JSStr (str ''123'')) 7 = str ''0000123''"
proof (intro conjI impI)
  assume "SendPage f \<in> set (events_of (on_line cfg e fr line))"
  from on_line_SendPage[OF this]
  obtain l fr1 ev1 where d: "decode cfg e fr line = (Normal l, fr1, ev1)"
    and p: "passes_filter l = Inr True"
    and f: "f = \<lparr>form_address = padDigits (address l) 7, form_message = trimMessage l,
                 form_datetime = datetime l, form_source = cfg_identifier cfg\<rparr>"
    by blast
  from p obtain a where a: "address l = JSStr a"
    unfolding passes_filter_True by blast
  have "form_address f = replicate (7 - length a) (of_char CHR ''0'') @ a"
    using f a by (simp add: padDigits_def padStart_zero)
  moreover from this have "length (form_address f) = max 7 (length a)" by simp
  ultimately show "\<exists>l fr1 ev1 a. decode cfg e fr line = (Normal l, fr1, ev1) \<and>
         address l = JSStr a \<and>
         form_address f = replicate (7 - length a) (of_char CHR ''0'') @ a \<and>
         length (form_address f) = max 7 (length a) \<and>
         (length a \<le> 7 \<longrightarrow> length (form_address f) = 7)"
    using d a by auto
next
  have r: "replicate 4 x = [x, x, x, x]" for x :: nat
    by (simp add: eval_nat_numeral)
  show "padDigits (JSStr (str ''123'')) 7 = str ''0000123''"
    by (simp add: padDigits_def padStart_def str_def r)
qed

theorem address_padding_witness:
  "SendPage \<lparr>form_address = str ''1234567'', form_message = JSStr (str ''TEST MESSAGE''),
              form_datetime = 1700000000, form_source = JSStr (str ''reader'')\<rparr>
     \<in> set (events_of (on_line example_config example_env Map.empty line_pocsag)) \<and>
   (\<exists>l fr1 ev1 a.
      decode example_config example_env Map.empty line_pocsag = (Normal l, fr1, ev1) \<and>
      address l = JSStr a \<and>
      str ''1234567'' = replicate (7 - length a) (of_char CHR ''0'') @ a \<and>
      length (str ''1234567'') = max 7 (length a))"
proof -
  let ?f = "\<lparr>form_address = str ''1234567'', form_message = JSStr (str ''TEST MESSAGE''),
             form_datetime = 1700000000, form_source = JSStr (str ''reader'')\<rparr>"
  have h: "SendPage ?f \<in> set (events_of (on_line example_config example_env Map.empty
             line_pocsag))"
    by (simp add: run_pocsag events_of_def)
  from address_padding[where f = ?f and cfg = example_config and e = example_env
         and fr = Map.empty and line = line_pocsag] h
  show ?thesis by auto
qed

theorem address_padding_counterexample:
  "map form_address
     (sent (events_of (on_line example_config example_env Map.empty line_flex_K))) =
     [str ''001234567''] \<and>
   length (str ''001234567'') = 9"
  by (simp add: run_flex_K events_of_def str_def)

text \<open>
  Claim C5, as amended. For every message handed to \<open>sendPage\<close>, the decoded \<open>message\<close>
  that the filter tests is a non-false, non-empty value, and the message field is
  \<open>trimMessage\<close>. For a line that is not a POCSAG line the field is non-empty as well. For
  a POCSAG line the field is the decoded message with the control tokens removed and the
  two accented characters replaced, which can be the empty string.
\<close>

theorem emitted_message_truthy:
  "SendPage f \<in> set (events_of (on_line cfg e fr line)) \<longrightarrow>
     (\<exists>l fr1 ev1. decode cfg e fr line = (Normal l, fr1, ev1) \<and> truthy (message l) \<and>
        form_message f = trimMessage l \<and>
        (if test POCSAG_LINE_REGEX line
         then \<exists>m. message l = JSStr m \<and> m \<noteq> [] \<and>
                (form_message f = JSStr (trim (strip_tokens m)) \<or>
                 form_message f = JSStr (strip_tokens m))
         else truthy (form_message f)))"
proof
  assume "SendPage f \<in> set (events_of (on_line cfg e fr line))"
  from on_line_SendPage[OF this]
  obtain l fr1 ev1 where d: "decode cfg e fr line = (Normal l, fr1, ev1)"
    and p: "passes_filter l = Inr True"
    and f: "f = \<lparr>form_address = padDigits (address l) 7, form_message = trimMessage l,
                 form_datetime = datetime l, form_source = cfg_identifier cfg\<rparr>"
    by blast
  from p have t: "truthy (message l)" unfolding passes_filter_True by blast
  from f have fm: "form_message f = trimMessage l" by simp
  have "if test POCSAG_LINE_REGEX line
        then \<exists>m. message l = JSStr m \<and> m \<noteq> [] \<and>
                (form_message f = JSStr (trim (strip_tokens m)) \<or>
                 form_message f = JSStr (strip_tokens m))
        else truthy (form_message f)"
  proof (cases "test POCSAG_LINE_REGEX line")
    case True
    from decode_message_pocsag[OF True d t] True fm show ?thesis by simp
  next
    case False
    from decode_message_other[OF False d t] False fm show ?thesis by simp
  qed
  with d t fm show "\<exists>l fr1 ev1. decode cfg e fr line = (Normal l, fr1, ev1) \<and>
        truthy (message l) \<and> form_message f = trimMessage l \<and>
        (if test POCSAG_LINE_REGEX line
         then \<exists>m. message l = JSStr m \<and> m \<noteq> [] \<and>
                (form_message f = JSStr (trim (strip_tokens m)) \<or>
                 form_message f = JSStr (strip_tokens m))
         else truthy (form_message f))"
    by blast
qed

theorem emitted_message_truthy_witness:
  "SendPage \<lparr>form_address = str ''1234567'', form_message = JSStr (str ''TEST MESSAGE''),
              form_datetime = 1700000000, form_source = JSStr (str ''reader'')\<rparr>
     \<in> set (events_of (on_line example_config example_env Map.empty line_pocsag)) \<and>
   (\<exists>l fr1 ev1.
      decode example_config example_env Map.empty line_pocsag = (Normal l, fr1, ev1) \<and>
      truthy (message l) \<and> JSStr (str ''TEST MESSAGE'') = trimMessage l)"
proof -
  let ?f = "\<lparr>form_address = str ''1234567'', form_message = JSStr (str ''TEST MESSAGE''),
             form_datetime = 1700000000, form_source = JSStr (str ''reader'')\<rparr>"
  have h: "SendPage ?f \<in> set (events_of (on_line example_config example_env Map.empty
             line_pocsag))"
    by (simp add: run_pocsag events_of_def)
  from emitted_message_truthy[where f = ?f and cfg = example_config and e = example_env
         and fr = Map.empty and line = line_pocsag] h
  show ?thesis by auto
qed

theorem emitted_message_counterexample:
  "map form_message
     (sent (events_of (on_line example_config example_env Map.empty line_pocsag_token))) =
     [JSStr []]"
  by (simp add: run_pocsag_token events_of_def)



text \<open>
  Claim C7. The handler runs the decoder of the family that \<open>classify\<close> gives: the
  patterns are tested in the order POCSAG, FLEX, EAS, the first that matches decides, and
  a line that matches none is UNKNOWN. A line that satisfies both the POCSAG and the FLEX
  pattern is decoded by the POCSAG branch.
\<close>

theorem classification_precedence:
  "decode cfg e fr line =
     (case classify line of
        POCSAG \<Rightarrow> (let (c, ev) = pocsag_branch cfg e line (initial_locals e) in (c, fr, ev))
      | FLEX \<Rightarrow> flex_branch cfg e fr line (initial_locals e)
      | EAS \<Rightarrow> (let (c, ev) = eas_branch cfg e line (initial_locals e) in (c, fr, ev))
      | UNKNOWN \<Rightarrow> (Normal (initial_locals e), fr, [])) \<and>
   (classify line = POCSAG \<longleftrightarrow> test POCSAG_LINE_REGEX line) \<and>
   (classify line = FLEX \<longleftrightarrow> \<not> test POCSAG_LINE_REGEX line \<and> test FLEX_ADDRESS_REGEX line) \<and>
   (classify line = EAS \<longleftrightarrow>
      \<not> test POCSAG_LINE_REGEX line \<and> \<not> test FLEX_ADDRESS_REGEX line \<and> test EAS_REGEX line) \<and>
   (classify line = UNKNOWN \<longleftrightarrow>
      \<not> test POCSAG_LINE_REGEX line \<and> \<not> test FLEX_ADDRESS_REGEX line \<and>
      \<not> test EAS_REGEX line) \<and>
   (test POCSAG_LINE_REGEX line \<and> test FLEX_ADDRESS_REGEX line \<longrightarrow>
      decode cfg e fr line =
        (let (c, ev) = pocsag_branch cfg e line (initial_locals e) in (c, fr, ev)))"
  by (simp add: decode_def classify_def family_patterns_def Let_def initial_locals_def)

theorem classification_precedence_witness:
  "test POCSAG_LINE_REGEX line_pocsag_flex \<and> test FLEX_ADDRESS_REGEX line_pocsag_flex \<and>
   classify line_pocsag_flex = POCSAG \<and>
   decode example_config example_env Map.empty line_pocsag_flex =
     (let (c, ev) = pocsag_branch example_config example_env line_pocsag_flex
                      (initial_locals example_env)
      in (c, Map.empty, ev))"
  using classification_precedence[where cfg = example_config and e = example_env
          and fr = Map.empty and line = line_pocsag_flex]
    line_pocsag_flex_facts
  by blast

text \<open>
  Claim C8. A message is handed to \<open>sendPage\<close> only if the decoded address is a string of
  more than two characters and the decoded message is truthy. When decoding ends normally
  and this filter fails, nothing is sent: the line is only logged (or, when reading the
  length of the address throws, reported by the \<open>catch\<close> block).
\<close>

theorem emission_filter:
  "(SendPage f \<in> set (events_of (on_line cfg e fr line)) \<longrightarrow>
      (\<exists>l fr1 ev1 a. decode cfg e fr line = (Normal l, fr1, ev1) \<and>
         address l = JSStr a \<and> 2 < length a \<and> truthy (message l))) \<and>
   (decode cfg e fr line = (Normal l, fr1, ev1) \<and>
    \<not> (\<exists>a. address l = JSStr a \<and> 2 < length a \<and> truthy (message l)) \<longrightarrow>
      sent (events_of (on_line cfg e fr line)) = [] \<and>
      (events_of (on_line cfg e fr line) = ev1 @ [LogLine line] \<or>
       events_of (on_line cfg e fr line) = ev1 @ [ErrorProcessing line TypeError]))"
proof (intro conjI impI)
  assume "SendPage f \<in> set (events_of (on_line cfg e fr line))"
  from on_line_SendPage[OF this]
  obtain l' fr1' ev1' where d: "decode cfg e fr line = (Normal l', fr1', ev1')"
    and p: "passes_filter l' = Inr True"
    by blast
  from p obtain a where "address l' = JSStr a" "2 < length a" "truthy (message l')"
    unfolding passes_filter_True by blast
  with d show "\<exists>l fr1 ev1 a. decode cfg e fr line = (Normal l, fr1, ev1) \<and>
         address l = JSStr a \<and> 2 < length a \<and> truthy (message l)" by blast
next
  assume a: "decode cfg e fr line = (Normal l, fr1, ev1) \<and>
    \<not> (\<exists>a. address l = JSStr a \<and> 2 < length a \<and> truthy (message l))"
  then have d: "decode cfg e fr line = (Normal l, fr1, ev1)"
    and p: "passes_filter l \<noteq> Inr True"
    by (simp_all add: passes_filter_True)
  show "sent (events_of (on_line cfg e fr line)) = []"
    unfolding on_line_sent using d p by simp
  from p have "passes_filter l = Inr False \<or> passes_filter l = Inl TypeError"
    by (auto simp: passes_filter_def split: jsval.splits)
  then show "events_of (on_line cfg e fr line) = ev1 @ [LogLine line] \<or>
       events_of (on_line cfg e fr line) = ev1 @ [ErrorProcessing line TypeError]"
    unfolding on_line_Normal[OF d] by (auto simp: events_of_def)
qed

theorem emission_filter_witness:
  "SendPage \<lparr>form_address = str ''1234567'', form_message = JSStr (str ''TEST MESSAGE''),
              form_datetime = 1700000000, form_source = JSStr (str ''reader'')\<rparr>
     \<in> set (events_of (on_line example_config example_env Map.empty line_pocsag)) \<and>
   (\<exists>l fr1 ev1 a.
      decode example_config example_env Map.empty line_pocsag = (Normal l, fr1, ev1) \<and>
      address l = JSStr a \<and> 2 < length a \<and> truthy (message l)) \<and>
   decode example_config example_env Map.empty line_unknown =
     (Normal (initial_locals example_env), Map.empty, []) \<and>
   \<not> (\<exists>a. address (initial_locals example_env) = JSStr a \<and> 2 < length a \<and>
          truthy (message (initial_locals example_env))) \<and>
   sent (events_of (on_line example_config example_env Map.empty line_unknown)) = []"
proof -
  let ?f = "\<lparr>form_address = str ''1234567'', form_message = JSStr (str ''TEST MESSAGE''),
             form_datetime = 1700000000, form_source = JSStr (str ''reader'')\<rparr>"
  have h: "SendPage ?f \<in> set (events_of (on_line example_config example_env Map.empty
             line_pocsag))"
    by (simp add: run_pocsag events_of_def)
  have d: "decode example_config example_env Map.empty line_unknown =
     (Normal (initial_locals example_env), Map.empty, [])"
    using line_unknown_facts by (simp add: decode_def initial_locals_def)
  have n: "\<not> (\<exists>a. address (initial_locals example_env) = JSStr a \<and> 2 < length a \<and>
          truthy (message (initial_locals example_env)))"
    by (simp add: initial_locals_def)
  from emission_filter[where f = ?f and cfg = example_config and e = example_env
         and fr = Map.empty and line = line_pocsag] h
  have 1: "\<exists>l fr1 ev1 a.
      decode example_config example_env Map.empty line_pocsag = (Normal l, fr1, ev1) \<and>
      address l = JSStr a \<and> 2 < length a \<and> truthy (message l)"
    by blast
  from emission_filter[where cfg = example_config and e = example_env
         and fr = Map.empty and line = line_unknown and l = "initial_locals example_env"
         and ?fr1.0 = Map.empty and ?ev1.0 = "[]"] d n
  have 2: "sent (events_of (on_line example_config example_env Map.empty line_unknown)) = []"
    by blast
  from h 1 d n 2 show ?thesis by blast
qed

text \<open>
  Claim C9. A line that matches none of the POCSAG, FLEX and EAS patterns is only logged,
  and so is a line that reaches the EAS branch when the SAME decoder returns no result
  (after the diagnostic of the failed decoding): in both cases \<open>sendPage\<close> is not called.
\<close>

theorem no_delivery_without_message:
  "(\<not> test POCSAG_LINE_REGEX line \<and> \<not> test FLEX_ADDRESS_REGEX line \<and> \<not> test EAS_REGEX line \<longrightarrow>
      events_of (on_line cfg e fr line) = [LogLine line] \<and>
      sent (events_of (on_line cfg e fr line)) = []) \<and>
   (\<not> test POCSAG_LINE_REGEX line \<and> \<not> test FLEX_ADDRESS_REGEX line \<and> test EAS_REGEX line \<and>
    EASOpts cfg = Some opts \<and>
    SAME_decode e line (excludeEvents opts) (includeFIPS opts) = Inr None \<longrightarrow>
      events_of (on_line cfg e fr line) = [Failed NoEasDecode line, LogLine line] \<and>
      sent (events_of (on_line cfg e fr line)) = [])"
proof (intro conjI impI)
  assume a: "\<not> test POCSAG_LINE_REGEX line \<and> \<not> test FLEX_ADDRESS_REGEX line \<and>
    \<not> test EAS_REGEX line"
  then have d: "decode cfg e fr line = (Normal (initial_locals e), fr, [])"
    by (simp add: decode_def initial_locals_def)
  show "events_of (on_line cfg e fr line) = [LogLine line]"
    unfolding on_line_Normal[OF d]
    by (simp add: events_of_def passes_filter_def initial_locals_def)
  then show "sent (events_of (on_line cfg e fr line)) = []" by simp
next
  assume a: "\<not> test POCSAG_LINE_REGEX line \<and> \<not> test FLEX_ADDRESS_REGEX line \<and>
    test EAS_REGEX line \<and> EASOpts cfg = Some opts \<and>
    SAME_decode e line (excludeEvents opts) (includeFIPS opts) = Inr None"
  then have d: "decode cfg e fr line = (Normal (initial_locals e), fr, [Failed NoEasDecode line])"
    by (simp add: decode_def eas_branch_def)
  show "events_of (on_line cfg e fr line) = [Failed NoEasDecode line, LogLine line]"
    unfolding on_line_Normal[OF d]
    by (simp add: events_of_def passes_filter_def initial_locals_def)
  then show "sent (events_of (on_line cfg e fr line)) = []" by simp
qed

theorem no_delivery_without_message_witness:
  "(\<not> test POCSAG_LINE_REGEX line_unknown \<and> \<not> test FLEX_ADDRESS_REGEX line_unknown \<and>
    \<not> test EAS_REGEX line_unknown) \<and>
   sent (events_of (on_line example_config example_env Map.empty line_unknown)) = [] \<and>
   (\<not> test POCSAG_LINE_REGEX line_eas \<and> \<not> test FLEX_ADDRESS_REGEX line_eas \<and>
    test EAS_REGEX line_eas) \<and>
   EASOpts example_config =
     Some \<lparr>excludeEvents = [], includeFIPS = [], addressAddType = JSBool True\<rparr> \<and>
   SAME_decode example_env line_eas [] [] = Inr None \<and>
   sent (events_of (on_line example_config example_env Map.empty line_eas)) = []"
proof -
  let ?opts = "\<lparr>excludeEvents = [], includeFIPS = [], addressAddType = JSBool True\<rparr>"
  have o: "EASOpts example_config = Some ?opts"
    by (simp add: EASOpts_def example_config_def)
  have s: "SAME_decode example_env line_eas (excludeEvents ?opts) (includeFIPS ?opts) = Inr None"
    by (simp add: example_env_def)
  from no_delivery_without_message[where line = line_unknown and cfg = example_config
         and e = example_env and fr = Map.empty]
    line_unknown_facts
  have 1: "sent (events_of (on_line example_config example_env Map.empty line_unknown)) = []"
    by blast
  from no_delivery_without_message[where line = line_eas and cfg = example_config
         and e = example_env and fr = Map.empty and opts = ?opts]
    line_eas_facts o s
  have 2: "sent (events_of (on_line example_config example_env Map.empty line_eas)) = []"
    by blast
  from 1 2 line_unknown_facts line_eas_facts o s show ?thesis by simp
qed

text \<open>
  Claim C10, as amended. No exception leaves the line handler: when the body of the \<open>try\<close>
  block throws, the \<open>catch\<close> block reports the line and the exception and the handler ends
  normally, so handling the emitted lines never ends by an exception and, whatever a line
  does, the lines emitted after it are handled. Reading the standard input does end
  early, though: the interface is in terminal mode, and a control byte 3 in the input
  closes it; the complete lines before the byte are handled, the line that holds it and
  everything after it are not. An input of newline-terminated lines of ordinary characters
  is handled to its end.
\<close>

theorem handler_catches_exceptions:
  "completion_of (on_line cfg e fr line) \<noteq> Throw err \<and>
   (line_body cfg e fr line = (Throw err, fr1, ev) \<longrightarrow>
      on_line cfg e fr line = (Normal (), fr1, ev @ [ErrorProcessing line err])) \<and>
   completion_of (rl_lines cfg fr inputs) = Normal () \<and>
   rl_lines cfg fr (before_lines @ (e, line) # after_lines) =
     (let (c, fr1, ev) = rl_lines cfg fr before_lines;
          (c', fr2, ev') = rl_lines cfg (frag_of (on_line cfg e fr1 line)) after_lines
      in (c', fr2, ev @ events_of (on_line cfg e fr1 line) @ ev')) \<and>
   (read_stdin cfg clock fr input = Some (r, why) \<longrightarrow> completion_of r = Normal ()) \<and>
   ((\<forall>l\<in>set ls. \<forall>c\<in>set l. inserted_key c) \<longrightarrow>
      read_stdin cfg clock fr (unlines ls) =
        Some (rl_lines cfg fr (zip (map clock [0..<length ls]) ls), EndOfInput)) \<and>
   ((\<forall>l\<in>set ls. \<forall>c\<in>set l. inserted_key c) \<and> (\<forall>c\<in>set partial. inserted_key c) \<longrightarrow>
      read_stdin cfg clock fr (unlines ls @ partial @ 3 # post) =
        Some (rl_lines cfg fr (zip (map clock [0..<length ls]) ls), Interrupt))"
proof (intro conjI impI)
  from on_line_completion[of cfg e fr line]
  show "completion_of (on_line cfg e fr line) \<noteq> Throw err" by auto
next
  assume "line_body cfg e fr line = (Throw err, fr1, ev)"
  then show "on_line cfg e fr line = (Normal (), fr1, ev @ [ErrorProcessing line err])"
    by (simp add: on_line_def try_catch_def)
next
  show "completion_of (rl_lines cfg fr inputs) = Normal ()" by (rule rl_lines_completion)
next
  show "rl_lines cfg fr (before_lines @ (e, line) # after_lines) =
     (let (c, fr1, ev) = rl_lines cfg fr before_lines;
          (c', fr2, ev') = rl_lines cfg (frag_of (on_line cfg e fr1 line)) after_lines
      in (c', fr2, ev @ events_of (on_line cfg e fr1 line) @ ev'))"
    unfolding rl_lines_append rl_lines_Cons by (simp add: Let_def split: prod.splits)
next
  assume "read_stdin cfg clock fr input = Some (r, why)"
  then obtain emitted where "r = rl_lines cfg fr emitted"
    by (auto simp: read_stdin_def split: option.splits)
  then show "completion_of r = Normal ()" by (simp add: rl_lines_completion)
next
  assume "\<forall>l\<in>set ls. \<forall>c\<in>set l. inserted_key c"
  from terminal_lines_complete[OF this]
  show "read_stdin cfg clock fr (unlines ls) =
        Some (rl_lines cfg fr (zip (map clock [0..<length ls]) ls), EndOfInput)"
    by (simp add: read_stdin_def)
next
  assume "(\<forall>l\<in>set ls. \<forall>c\<in>set l. inserted_key c) \<and> (\<forall>c\<in>set partial. inserted_key c)"
  then have "terminal_lines [] (unlines ls @ partial @ 3 # post) = Some (ls, Interrupt)"
    by (intro terminal_lines_cut) simp_all
  then show "read_stdin cfg clock fr (unlines ls @ partial @ 3 # post) =
        Some (rl_lines cfg fr (zip (map clock [0..<length ls]) ls), Interrupt)"
    by (simp add: read_stdin_def)
qed

theorem handler_catches_exceptions_witness:
  "line_body (example_config\<lparr>cfg_EAS := None\<rparr>) example_env Map.empty line_eas =
     (Throw TypeError, Map.empty, []) \<and>
   on_line (example_config\<lparr>cfg_EAS := None\<rparr>) example_env Map.empty line_eas =
     (Normal (), Map.empty, [ErrorProcessing line_eas TypeError]) \<and>
   read_stdin (example_config\<lparr>cfg_EAS := None\<rparr>) example_clock Map.empty
       (unlines [line_eas, line_pocsag]) =
     Some ((Normal (), Map.empty,
            [ErrorProcessing line_eas TypeError,
             LogMessage (str ''1234567'') (JSStr (str ''TEST MESSAGE'')),
             SendPage \<lparr>form_address = str ''1234567'',
                       form_message = JSStr (str ''TEST MESSAGE''),
                       form_datetime = 1700000000, form_source = JSStr (str ''reader'')\<rparr>]),
           EndOfInput) \<and>
   read_stdin (example_config\<lparr>cfg_EAS := None\<rparr>) example_clock Map.empty
       (unlines [line_eas, line_pocsag] @ line_pocsag_before_ctrl @ 3 # unlines [line_pocsag]) =
     Some ((Normal (), Map.empty,
            [ErrorProcessing line_eas TypeError,
             LogMessage (str ''1234567'') (JSStr (str ''TEST MESSAGE'')),
             SendPage \<lparr>form_address = str ''1234567'',
                       form_message = JSStr (str ''TEST MESSAGE''),
                       form_datetime = 1700000000, form_source = JSStr (str ''reader'')\<rparr>]),
           Interrupt)"
proof -
  let ?cfg = "example_config\<lparr>cfg_EAS := None\<rparr>"
  have plain: "\<forall>l\<in>set [line_eas, line_pocsag]. \<forall>c\<in>set l. inserted_key c"
    by (simp add: line_eas_def line_pocsag_def str_def inserted_key_def)
  have partial: "\<forall>c\<in>set line_pocsag_before_ctrl. inserted_key c"
    by (simp add: line_pocsag_before_ctrl_def str_def inserted_key_def)
  note t = handler_catches_exceptions[where cfg = ?cfg and e = example_env
             and fr = Map.empty and line = line_eas and err = TypeError and ?fr1.0 = Map.empty
             and ev = "[]" and clock = example_clock and ls = "[line_eas, line_pocsag]"
             and partial = line_pocsag_before_ctrl and post = "unlines [line_pocsag]"]
  from t run_eas_no_opts
  have 1: "on_line ?cfg example_env Map.empty line_eas =
     (Normal (), Map.empty, [ErrorProcessing line_eas TypeError])"
    by simp
  have lines: "rl_lines ?cfg Map.empty
        (zip (map example_clock [0..<length [line_eas, line_pocsag]]) [line_eas, line_pocsag]) =
     (Normal (), Map.empty,
      [ErrorProcessing line_eas TypeError,
       LogMessage (str ''1234567'') (JSStr (str ''TEST MESSAGE'')),
       SendPage \<lparr>form_address = str ''1234567'', form_message = JSStr (str ''TEST MESSAGE''),
                 form_datetime = 1700000000, form_source = JSStr (str ''reader'')\<rparr>])"
    by (simp add: upt_rec example_clock_def 1 run_pocsag_no_opts)
  from t plain have 2: "read_stdin ?cfg example_clock Map.empty (unlines [line_eas, line_pocsag]) =
      Some (rl_lines ?cfg Map.empty
        (zip (map example_clock [0..<length [line_eas, line_pocsag]]) [line_eas, line_pocsag]),
        EndOfInput)"
    by blast
  from t plain partial
  have 3: "read_stdin ?cfg example_clock Map.empty
       (unlines [line_eas, line_pocsag] @ line_pocsag_before_ctrl @ 3 # unlines [line_pocsag]) =
      Some (rl_lines ?cfg Map.empty
        (zip (map example_clock [0..<length [line_eas, line_pocsag]]) [line_eas, line_pocsag]),
        Interrupt)"
    by blast
  from run_eas_no_opts 1 2 3 show ?thesis
    unfolding lines by (intro conjI)
qed

theorem handler_catches_exceptions_counterexample:
  "read_stdin example_config example_clock Map.empty stdin_interrupted =
     Some ((Normal (), Map.empty, []), Interrupt) \<and>
   read_stdin example_config example_clock Map.empty (line_pocsag @ [10]) =
     Some ((Normal (), Map.empty,
            [LogMessage (str ''1234567'') (JSStr (str ''TEST MESSAGE'')),
             SendPage \<lparr>form_address = str ''1234567'',
                       form_message = JSStr (str ''TEST MESSAGE''),
                       form_datetime = 1700000000, form_source = JSStr (str ''reader'')\<rparr>]),
           EndOfInput)"
proof -
  have partial: "\<forall>c\<in>set line_pocsag_before_ctrl. inserted_key c"
    by (simp add: line_pocsag_before_ctrl_def str_def inserted_key_def)
  have plain: "\<forall>l\<in>set [line_pocsag]. \<forall>c\<in>set l. inserted_key c"
    by (simp add: line_pocsag_def str_def inserted_key_def)
  have "terminal_lines [] stdin_interrupted = Some ([], Interrupt)"
    unfolding stdin_interrupted_def
    using terminal_lines_inserted[OF partial, of "[]"] by simp
  then have 1: "read_stdin example_config example_clock Map.empty stdin_interrupted =
     Some ((Normal (), Map.empty, []), Interrupt)"
    by (simp add: read_stdin_def)
  have "terminal_lines [] (line_pocsag @ [10]) = Some ([line_pocsag], EndOfInput)"
    using terminal_lines_complete[OF plain] by (simp add: unlines_def)
  then have 2: "read_stdin example_config example_clock Map.empty (line_pocsag @ [10]) =
     Some ((Normal (), Map.empty,
            [LogMessage (str ''1234567'') (JSStr (str ''TEST MESSAGE'')),
             SendPage \<lparr>form_address = str ''1234567'',
                       form_message = JSStr (str ''TEST MESSAGE''),
                       form_datetime = 1700000000, form_source = JSStr (str ''reader'')\<rparr>]),
           EndOfInput)"
    by (simp add: read_stdin_def example_clock_def run_pocsag)
  from 1 2 show ?thesis by (intro conjI)
qed

end
